theory Spec2Isabelle
  imports Complex_Main
begin

section \<open>Values and host services\<close>

text \<open>
  The model neurons compute on C++ \<open>double\<close>. The embedding idealises a double as a
  \<^typ>\<open>real\<close>: every arithmetic operation is the exact one, without rounding, infinities
  or NaN. The one place where a non-finite value matters is the division of the spike
  offset, whose denominator can be zero; there the quotient is an optional value and
  \<open>None\<close> stands for the non-finite result (an infinity or NaN) that IEEE division by zero
  produces without trapping. All other quotients (by \<open>C_m\<close>, by \<open>G\<close>, by a synaptic time
  constant) are written with the division of \<^typ>\<open>real\<close>, which is total and gives 0
  where the double is an infinity or NaN; the statement about the threshold crossing (C3)
  therefore assumes a capacitance, and for the exact method of \<open>glif_lif\<close> a conductance,
  other than 0. The bounds on the spike offset (C3) and on the refractory counter (C6) are
  stated with the non-strict comparison, which the rounded operations of the doubles keep
  as well; a statement that gives the formula of an operation reads the same on doubles.
\<close>

definition fdiv :: "real \<Rightarrow> real \<Rightarrow> real option" where
  "fdiv a b = (if b = 0 then None else Some (a / b))"

text \<open>
  Modelled from the spec: \<open>nest::RingBuffer\<close> (\<open>ring_buffer.h\<close> is not among the
  sources). A buffer holds one accumulated value per step offset (lag) of the current
  slice; \<open>add_value\<close> sums into a slot, \<open>get_value\<close> returns the value of a slot and
  clears it.
\<close>

type_synonym RingBuffer = "nat \<Rightarrow> real"

definition add_value :: "RingBuffer \<Rightarrow> nat \<Rightarrow> real \<Rightarrow> RingBuffer" where
  "add_value b offs x = b(offs := b offs + x)"

definition get_value :: "RingBuffer \<Rightarrow> nat \<Rightarrow> real \<times> RingBuffer" where
  "get_value b offs = (b offs, b(offs := 0))"

text \<open>
  Modelled from the spec: the key-value configuration surface (\<open>DictionaryDatum\<close> and
  \<open>updateValue\<close> of \<open>dictutils.h\<close> are not among the sources). A dictionary carries an
  optional entry per key; \<open>updateValue\<close> overwrites the target when the key is present
  and reports whether it was.
\<close>

record DictionaryDatum =
  d_V_th :: "real option"
  d_g :: "real option"
  d_E_L :: "real option"
  d_C_m :: "real option"
  d_t_ref :: "real option"
  d_V_reset :: "real option"
  d_tau_syn :: "real list option"
  d_V_dynamics_method :: "string option"
  d_V_m :: "real option"

definition updateValue :: "'a option \<Rightarrow> 'a \<Rightarrow> bool \<times> 'a" where
  "updateValue t val = (case t of None \<Rightarrow> (False, val) | Some x \<Rightarrow> (True, x))"

definition empty_dict :: DictionaryDatum where
  "empty_dict = \<lparr>d_V_th = None, d_g = None, d_E_L = None, d_C_m = None, d_t_ref = None,
     d_V_reset = None, d_tau_syn = None, d_V_dynamics_method = None, d_V_m = None\<rparr>"

text \<open>
  What a step hands to the host: the spike time archived by \<open>set_spiketime\<close>, the
  \<open>SpikeEvent\<close> passed to the event delivery manager, and the membrane potential that
  \<open>record_data\<close> logs. The offset of a spike is \<open>None\<close> when its division had a zero
  denominator.
\<close>

datatype event =
    SetSpiketime int "real option"
  | Send nat "real option"
  | RecordData int real

datatype error = BadProperty string | IncompatibleReceptorType int

text \<open>The variables of the loop of \<open>update\<close>: the node, the local \<open>v_old\<close>, and the
  events handed to the host so far.\<close>

record 'n loop =
  node :: 'n
  v_old :: real
  events :: "event list"


section \<open>The plain variant: \<open>glif_lif.cpp\<close>\<close>

record Parameters =
  th_inf :: real
  G :: real
  E_l :: real
  C_m :: real
  t_ref :: real
  V_reset :: real
  V_dynamics_method :: string

record State =
  V_m :: real
  I :: real

record Variables =
  t_ref_remaining :: real
  t_ref_total :: real

text \<open>The two variants differ in the spike buffer (one ring buffer, or one per receptor)
  and in the members of \<open>Parameters_\<close>, \<open>State_\<close> and \<open>Variables_\<close>; a node has the four
  members \<open>P_\<close>, \<open>S_\<close>, \<open>V_\<close>, \<open>B_\<close> in both. The logger of \<open>Buffers_\<close> is
  represented by the \<open>RecordData\<close> events.\<close>

record 's Buffers =
  spikes :: 's
  currents :: RingBuffer

record ('p, 's, 'v, 'b) Node =
  P :: 'p
  S :: 's
  V :: 'v
  B :: 'b

type_synonym glif_lif = "(Parameters, State, Variables, RingBuffer Buffers) Node"

text \<open>\<open>glif_lif::Parameters_::Parameters_()\<close> and \<open>glif_lif::State_::State_\<close>.\<close>

definition Parameters_default :: Parameters where
  "Parameters_default = \<lparr>th_inf = 0.0265, G = 4.6951 / 10 ^ 9, E_l = - 0.0774,
     C_m = 9.9182 / 10 ^ 11, t_ref = 1.0, V_reset = 0.0,
     V_dynamics_method = ''linear_forward_euler''\<rparr>"

definition State_default :: State where
  "State_default = \<lparr>V_m = 0.0, I = 0.0\<rparr>"

text \<open>\<open>glif_lif::Parameters_::set\<close>: seven unconditional \<open>updateValue\<close> calls; nothing is
  checked and nothing is thrown.\<close>

definition Parameters_set :: "Parameters \<Rightarrow> DictionaryDatum \<Rightarrow> Parameters" where
  "Parameters_set p d =
     p\<lparr>th_inf := snd (updateValue (d_V_th d) (th_inf p)),
       G := snd (updateValue (d_g d) (G p)),
       E_l := snd (updateValue (d_E_L d) (E_l p)),
       C_m := snd (updateValue (d_C_m d) (C_m p)),
       t_ref := snd (updateValue (d_t_ref d) (t_ref p)),
       V_reset := snd (updateValue (d_V_reset d) (V_reset p)),
       V_dynamics_method := snd (updateValue (d_V_dynamics_method d) (V_dynamics_method p))\<rparr>"

text \<open>\<open>glif_lif::State_::set\<close>; \<open>glif_lif_psc::State_::set\<close> is the same function on the
  larger state.\<close>

definition State_set :: "'a State_scheme \<Rightarrow> DictionaryDatum \<Rightarrow> 'a State_scheme" where
  "State_set s d = s\<lparr>V_m := snd (updateValue (d_V_m d) (V_m s))\<rparr>"

text \<open>\<open>glif_lif::init_buffers_\<close>: \<open>clear\<close> empties both ring buffers.\<close>

definition init_buffers :: "glif_lif \<Rightarrow> glif_lif" where
  "init_buffers n = n\<lparr>B := \<lparr>spikes = (\<lambda>_. 0), currents = (\<lambda>_. 0)\<rparr>\<rparr>"

text \<open>\<open>glif_lif::calibrate\<close>: the refractory counter is cleared and the refractory time
  is converted from milliseconds to seconds.\<close>

definition calibrate :: "glif_lif \<Rightarrow> glif_lif" where
  "calibrate n = n\<lparr>V := \<lparr>t_ref_remaining = 0.0, t_ref_total = t_ref (P n) * 0.001\<rparr>\<rparr>"

text \<open>
  The spike offset of both variants (\<open>glif_lif.cpp\<close> line 221, \<open>glif_lif_psc.cpp\<close> line
  306): \<open>(1 - (th_inf - v_old) / (V_m - v_old)) * get_ms()\<close>, where \<open>h\<close> is the
  resolution in milliseconds.
\<close>

definition spike_offset :: "real \<Rightarrow> real \<Rightarrow> real \<Rightarrow> real \<Rightarrow> real option" where
  "spike_offset th vo vm h = map_option (\<lambda>q. (1 - q) * h) (fdiv (th - vo) (vm - vo))"

text \<open>
  The first part of the body of the loop of \<open>glif_lif::update\<close> (lines 188 to 227): the
  refractory count-down, or the voltage dynamics and the threshold test. \<open>h\<close> is
  \<open>Time::get_resolution().get_ms()\<close>; the step \<open>dt\<close> of this variant is in seconds; \<open>vo\<close>
  is the local \<open>v_old\<close>. An unrecognised \<open>V_dynamics_method\<close> takes neither branch of the
  \<open>if\<close>/\<open>else if\<close> and leaves \<open>V_m\<close> as it is. The result is the node and the events of
  a spike, if there is one.
\<close>

definition voltage_step :: "real \<Rightarrow> int \<Rightarrow> nat \<Rightarrow> real \<Rightarrow> glif_lif \<Rightarrow> glif_lif \<times> event list" where
  "voltage_step h origin lag vo n =
    (let dt = h * 0.001 in
     if t_ref_remaining (V n) > 0.0 then
       (let n' = n\<lparr>V := (V n)\<lparr>t_ref_remaining := t_ref_remaining (V n) - dt\<rparr>\<rparr>
        in if t_ref_remaining (V n') \<le> 0.0
           then (n'\<lparr>S := (S n')\<lparr>V_m := V_reset (P n')\<rparr>\<rparr>, [])
           else (n'\<lparr>S := (S n')\<lparr>V_m := vo\<rparr>\<rparr>, []))
     else
       (let n' =
          (if V_dynamics_method (P n) = ''linear_forward_euler'' then
             n\<lparr>S := (S n)\<lparr>V_m := vo + dt * (I (S n) - G (P n) * (vo - E_l (P n))) / C_m (P n)\<rparr>\<rparr>
           else if V_dynamics_method (P n) = ''linear_exact'' then
             (let tau = G (P n) / C_m (P n)
              in n\<lparr>S := (S n)\<lparr>V_m := vo * exp (- dt * tau)
                   + ((I (S n) + G (P n) * E_l (P n)) / C_m (P n)) * (1 - exp (- tau * dt)) / tau\<rparr>\<rparr>)
           else n)
        in if V_m (S n') > th_inf (P n') then
             (let n'' = n'\<lparr>V := (V n')\<lparr>t_ref_remaining := t_ref_total (V n')\<rparr>\<rparr>;
                  offs = spike_offset (th_inf (P n'')) vo (V_m (S n'')) h
              in (n'', [SetSpiketime (origin + int lag + 1) offs, Send lag offs]))
           else (n', [])))"

text \<open>The whole body for one lag: the first part, then the current of this lag is drained
  into \<open>I_\<close>, the membrane potential is logged, and \<open>v_old\<close> becomes the new potential.\<close>

definition update_lag :: "real \<Rightarrow> int \<Rightarrow> nat \<Rightarrow> glif_lif loop \<Rightarrow> glif_lif loop" where
  "update_lag h origin lag l =
    (let (n1, ev1) = voltage_step h origin lag (v_old l) (node l);
         (c, cb) = get_value (currents (B n1)) lag;
         n2 = n1\<lparr>S := (S n1)\<lparr>I := c\<rparr>, B := (B n1)\<lparr>currents := cb\<rparr>\<rparr>
     in \<lparr>node = n2, v_old = V_m (S n2),
         events = events l @ ev1 @ [RecordData (origin + int lag) (V_m (S n2))]\<rparr>)"

text \<open>\<open>glif_lif::update\<close>: the lags \<open>from \<le> lag < to\<close> in order, starting with
  \<open>v_old = S_.V_m_\<close>. The result is the node and the events of the slice.\<close>

definition update :: "real \<Rightarrow> int \<Rightarrow> nat \<Rightarrow> nat \<Rightarrow> glif_lif \<Rightarrow> glif_lif \<times> event list" where
  "update h origin from to n =
    (let l = fold (update_lag h origin) [from..<to] \<lparr>node = n, v_old = V_m (S n), events = []\<rparr>
     in (node l, events l))"

text \<open>\<open>glif_lif::handle(SpikeEvent)\<close> and \<open>glif_lif::handle(CurrentEvent)\<close>: \<open>steps\<close> is
  \<open>get_rel_delivery_steps\<close>, \<open>w\<close> the weight and \<open>c\<close> the current of the event.\<close>

definition handle_spike :: "nat \<Rightarrow> real \<Rightarrow> glif_lif \<Rightarrow> glif_lif" where
  "handle_spike steps w n = n\<lparr>B := (B n)\<lparr>spikes := add_value (spikes (B n)) steps w\<rparr>\<rparr>"

definition handle_current :: "nat \<Rightarrow> real \<Rightarrow> real \<Rightarrow> glif_lif \<Rightarrow> glif_lif" where
  "handle_current steps w c n = n\<lparr>B := (B n)\<lparr>currents := add_value (currents (B n)) steps (w * c)\<rparr>\<rparr>"


section \<open>The variant with alpha-shaped synaptic currents: \<open>glif_lif_psc.cpp\<close>\<close>

record psc_Parameters = Parameters +
  tau_syn :: "real list"
  has_connections :: bool

record psc_State = State +
  y1 :: "real list"
  y2 :: "real list"

record psc_Variables = Variables +
  method_flag :: int
  P11 :: "real list"
  P21 :: "real list"
  P22 :: "real list"
  P31 :: "real list"
  P32 :: "real list"
  P30 :: real
  P33 :: real
  PSCInitialValues :: "real list"

text \<open>The member \<open>method_\<close> of \<open>Variables_\<close> is the field \<open>method_flag\<close>.\<close>

type_synonym glif_lif_psc =
  "(psc_Parameters, psc_State, psc_Variables, RingBuffer list Buffers) Node"

text \<open>
  What \<open>calibrate\<close> takes from the host and from \<open>libnestutil\<close>, neither among the
  sources: the two propagator functions of \<open>propagator_stability.h\<close> and
  \<open>RingBuffer::resize()\<close>.
\<close>

record host =
  propagator_31 :: "real \<Rightarrow> real \<Rightarrow> real \<Rightarrow> real \<Rightarrow> real"
  propagator_32 :: "real \<Rightarrow> real \<Rightarrow> real \<Rightarrow> real \<Rightarrow> real"
  RingBuffer_resize :: "RingBuffer \<Rightarrow> RingBuffer"

text \<open>Modelled from the spec: \<open>n_receptors_()\<close> is declared in \<open>glif_lif_psc.h\<close>, which
  is not among the sources; the length of \<open>synaptic_time_constants\<close> defines the receptor
  count.\<close>

definition n_receptors :: "psc_Parameters \<Rightarrow> nat" where
  "n_receptors p = length (tau_syn p)"

text \<open>\<open>std::vector::resize\<close>: the first \<open>k\<close> elements stay, new elements are
  value-initialised.\<close>

definition resize :: "'a \<Rightarrow> nat \<Rightarrow> 'a list \<Rightarrow> 'a list" where
  "resize z k xs = take k xs @ replicate (k - length xs) z"

definition psc_Parameters_default :: psc_Parameters where
  "psc_Parameters_default = \<lparr>th_inf = 0.0265 * 1000, G = 4.6951, E_l = - 0.0774 * 1000,
     C_m = 99.182, t_ref = 0.5, V_reset = 0.0, V_dynamics_method = ''linear_forward_euler'',
     tau_syn = [2.0], has_connections = False\<rparr>"

definition psc_State_default :: psc_State where
  "psc_State_default = \<lparr>V_m = 0.0, I = 0.0, y1 = [], y2 = []\<rparr>"

text \<open>The loop of \<open>Parameters_::set\<close> over the time constants: the first one that is not
  positive throws.\<close>

primrec check_tau_syn :: "real list \<Rightarrow> error + unit" where
  "check_tau_syn [] = Inr ()"
| "check_tau_syn (t # ts) =
     (if t \<le> 0 then Inl (BadProperty ''All synaptic time constants must be strictly positive.'')
      else check_tau_syn ts)"

text \<open>
  \<open>glif_lif_psc::Parameters_::set\<close>. The eight \<open>updateValue\<close> calls of lines 96 to 103
  come first, the one for \<open>tau_syn\<close> among them; \<open>old_n_receptors\<close> is read after them
  (line 105), and \<open>tau_syn\<close> is read from the dictionary a second time in the condition of
  line 106. A throw leaves the function with \<open>Inl\<close>.
\<close>

definition psc_Parameters_set :: "psc_Parameters \<Rightarrow> DictionaryDatum \<Rightarrow> error + psc_Parameters" where
  "psc_Parameters_set p d =
    (let p1 = p\<lparr>th_inf := snd (updateValue (d_V_th d) (th_inf p)),
                G := snd (updateValue (d_g d) (G p)),
                E_l := snd (updateValue (d_E_L d) (E_l p)),
                C_m := snd (updateValue (d_C_m d) (C_m p)),
                t_ref := snd (updateValue (d_t_ref d) (t_ref p)),
                V_reset := snd (updateValue (d_V_reset d) (V_reset p)),
                tau_syn := snd (updateValue (d_tau_syn d) (tau_syn p)),
                V_dynamics_method := snd (updateValue (d_V_dynamics_method d) (V_dynamics_method p))\<rparr>;
         old_n_receptors = n_receptors p1;
         (present, ts) = updateValue (d_tau_syn d) (tau_syn p1);
         p2 = p1\<lparr>tau_syn := ts\<rparr>
     in if present then
          (if n_receptors p2 \<noteq> old_n_receptors \<and> has_connections p2 = True then
             Inl (BadProperty
               ''The neuron has connections, therefore the number of ports cannot be reduced.'')
           else (case check_tau_syn (tau_syn p2) of Inl e \<Rightarrow> Inl e | Inr _ \<Rightarrow> Inr p2))
        else Inr p2)"

text \<open>\<open>glif_lif_psc::handles_test_event(SpikeEvent&, rport)\<close>.\<close>

definition handles_test_event :: "int \<Rightarrow> glif_lif_psc \<Rightarrow> error + int \<times> glif_lif_psc" where
  "handles_test_event receptor_type n =
    (if receptor_type \<le> 0 \<or> receptor_type > int (n_receptors (P n))
     then Inl (IncompatibleReceptorType receptor_type)
     else Inr (receptor_type, n\<lparr>P := (P n)\<lparr>has_connections := True\<rparr>\<rparr>))"

text \<open>The body of the loop of \<open>glif_lif_psc::calibrate\<close> for receptor \<open>i\<close> (lines 230 to
  242); \<open>numerics::e\<close> is \<open>exp 1\<close>.\<close>

definition calibrate_receptor :: "host \<Rightarrow> real \<Rightarrow> real \<Rightarrow> nat \<Rightarrow> glif_lif_psc \<Rightarrow> glif_lif_psc" where
  "calibrate_receptor k h Tau i n =
    (let Tau_syn_s = tau_syn (P n) ! i;
         p11 = exp (- h / Tau_syn_s);
         v = V n;
         v = v\<lparr>P22 := (P22 v)[i := p11]\<rparr>;
         v = v\<lparr>P11 := (P11 v)[i := p11]\<rparr>;
         v = v\<lparr>P21 := (P21 v)[i := h * P11 v ! i]\<rparr>;
         v = v\<lparr>P31 := (P31 v)[i := propagator_31 k (tau_syn (P n) ! i) Tau (C_m (P n)) h]\<rparr>;
         v = v\<lparr>P32 := (P32 v)[i := propagator_32 k (tau_syn (P n) ! i) Tau (C_m (P n)) h]\<rparr>;
         v = v\<lparr>PSCInitialValues := (PSCInitialValues v)[i := 1.0 * exp 1 / Tau_syn_s]\<rparr>
     in n\<lparr>V := v,
          B := (B n)\<lparr>spikes := (spikes (B n))[i := RingBuffer_resize k (spikes (B n) ! i)]\<rparr>\<rparr>)"

text \<open>\<open>glif_lif_psc::calibrate\<close>; \<open>h\<close> is the resolution in milliseconds, which is also the
  unit of \<open>t_ref\<close> in this variant.\<close>

definition psc_calibrate :: "host \<Rightarrow> real \<Rightarrow> glif_lif_psc \<Rightarrow> glif_lif_psc" where
  "psc_calibrate k h n =
    (let nr = n_receptors (P n);
         v = (V n)\<lparr>t_ref_remaining := 0.0, t_ref_total := t_ref (P n)\<rparr>;
         v = v\<lparr>method_flag := 0\<rparr>;
         v = (if V_dynamics_method (P n) = ''linear_exact'' then v\<lparr>method_flag := 1\<rparr> else v);
         v = v\<lparr>P11 := resize 0 nr (P11 v), P21 := resize 0 nr (P21 v), P22 := resize 0 nr (P22 v),
               P31 := resize 0 nr (P31 v), P32 := resize 0 nr (P32 v)\<rparr>;
         s = (S n)\<lparr>y1 := resize 0 nr (y1 (S n)), y2 := resize 0 nr (y2 (S n))\<rparr>;
         v = v\<lparr>PSCInitialValues := resize 0 nr (PSCInitialValues v)\<rparr>;
         b = (B n)\<lparr>spikes := resize (\<lambda>_. 0) nr (spikes (B n))\<rparr>;
         Tau = C_m (P n) / G (P n);
         v = v\<lparr>P33 := exp (- h / Tau)\<rparr>;
         v = v\<lparr>P30 := 1 / C_m (P n) * (1 - P33 v) * Tau\<rparr>
     in fold (calibrate_receptor k h Tau) [0..<nr] (n\<lparr>S := s, V := v, B := b\<rparr>))"

text \<open>The first loop over the receptors in \<open>update\<close> (lines 295 to 298): the synaptic
  currents are added to the membrane potential.\<close>

definition add_synapse :: "glif_lif_psc \<Rightarrow> nat \<Rightarrow> real \<Rightarrow> real" where
  "add_synapse n i vm = vm + (P31 (V n) ! i * y1 (S n) ! i + P32 (V n) ! i * y2 (S n) ! i)"

text \<open>The body of the second loop over the receptors (lines 320 to 326): three
  assignments, the last of which drains the spike buffer of the receptor at this lag.\<close>

definition alpha_psc :: "nat \<Rightarrow> nat \<Rightarrow> glif_lif_psc \<Rightarrow> glif_lif_psc" where
  "alpha_psc lag i n =
    (let s = S n;
         s = s\<lparr>y2 := (y2 s)[i := P21 (V n) ! i * y1 s ! i + P22 (V n) ! i * y2 s ! i]\<rparr>;
         s = s\<lparr>y1 := (y1 s)[i := y1 s ! i * P11 (V n) ! i]\<rparr>;
         (x, rb) = get_value (spikes (B n) ! i) lag;
         s = s\<lparr>y1 := (y1 s)[i := y1 s ! i + PSCInitialValues (V n) ! i * x]\<rparr>
     in n\<lparr>S := s, B := (B n)\<lparr>spikes := (spikes (B n))[i := rb]\<rparr>\<rparr>)"

text \<open>
  The first part of the body of the loop of \<open>glif_lif_psc::update\<close> (lines 266 to 314);
  \<open>dt\<close> is the resolution in milliseconds. The \<open>switch\<close> on \<open>method_\<close> has the cases 0 and
  1 and no default. The diagnostic \<open>printf\<close> of line 307 writes to the standard output only
  and is left out.
\<close>

definition psc_voltage_step ::
    "real \<Rightarrow> int \<Rightarrow> nat \<Rightarrow> real \<Rightarrow> glif_lif_psc \<Rightarrow> glif_lif_psc \<times> event list" where
  "psc_voltage_step h origin lag vo n =
    (let dt = h in
     if t_ref_remaining (V n) > 0.0 then
       (let n' = n\<lparr>V := (V n)\<lparr>t_ref_remaining := t_ref_remaining (V n) - dt\<rparr>\<rparr>
        in if t_ref_remaining (V n') \<le> 0.0
           then (n'\<lparr>S := (S n')\<lparr>V_m := V_reset (P n')\<rparr>\<rparr>, [])
           else (n'\<lparr>S := (S n')\<lparr>V_m := vo\<rparr>\<rparr>, []))
     else
       (let n' =
          (if method_flag (V n) = 0 then
             n\<lparr>S := (S n)\<lparr>V_m := vo + dt * (I (S n) - G (P n) * (vo - E_l (P n))) / C_m (P n)\<rparr>\<rparr>
           else if method_flag (V n) = 1 then
             n\<lparr>S := (S n)\<lparr>V_m := vo * P33 (V n) + (I (S n) + G (P n) * E_l (P n)) * P30 (V n)\<rparr>\<rparr>
           else n);
            n' = n'\<lparr>S := (S n')\<lparr>V_m := fold (add_synapse n') [0..<n_receptors (P n')] (V_m (S n'))\<rparr>\<rparr>
        in if V_m (S n') > th_inf (P n') then
             (let n'' = n'\<lparr>V := (V n')\<lparr>t_ref_remaining := t_ref_total (V n')\<rparr>\<rparr>;
                  offs = spike_offset (th_inf (P n'')) vo (V_m (S n'')) h
              in (n'', [SetSpiketime (origin + int lag + 1) offs, Send lag offs]))
           else (n', [])))"

text \<open>The whole body for one lag: the first part, the synaptic filter of every receptor in
  index order, then the current of this lag is drained into \<open>I_\<close>, the membrane potential
  is logged, and \<open>v_old\<close> becomes the new potential.\<close>

definition psc_update_lag :: "real \<Rightarrow> int \<Rightarrow> nat \<Rightarrow> glif_lif_psc loop \<Rightarrow> glif_lif_psc loop" where
  "psc_update_lag h origin lag l =
    (let (n1, ev1) = psc_voltage_step h origin lag (v_old l) (node l);
         n1 = fold (alpha_psc lag) [0..<n_receptors (P n1)] n1;
         (c, cb) = get_value (currents (B n1)) lag;
         n2 = n1\<lparr>S := (S n1)\<lparr>I := c\<rparr>, B := (B n1)\<lparr>currents := cb\<rparr>\<rparr>
     in \<lparr>node = n2, v_old = V_m (S n2),
         events = events l @ ev1 @ [RecordData (origin + int lag) (V_m (S n2))]\<rparr>)"

definition psc_update :: "real \<Rightarrow> int \<Rightarrow> nat \<Rightarrow> nat \<Rightarrow> glif_lif_psc \<Rightarrow> glif_lif_psc \<times> event list" where
  "psc_update h origin from to n =
    (let l = fold (psc_update_lag h origin) [from..<to] \<lparr>node = n, v_old = V_m (S n), events = []\<rparr>
     in (node l, events l))"

text \<open>\<open>glif_lif_psc::handle(SpikeEvent)\<close> for an event on receptor port \<open>rport\<close> (the
  buffer \<open>rport - 1\<close>; the port has passed \<open>handles_test_event\<close> and is in range) with
  weight \<open>w\<close> and multiplicity \<open>m\<close>, and \<open>glif_lif_psc::handle(CurrentEvent)\<close>.\<close>

definition psc_handle_spike :: "nat \<Rightarrow> nat \<Rightarrow> real \<Rightarrow> real \<Rightarrow> glif_lif_psc \<Rightarrow> glif_lif_psc" where
  "psc_handle_spike rport steps w m n =
     n\<lparr>B := (B n)\<lparr>spikes := (spikes (B n))[rport - 1 := add_value (spikes (B n) ! (rport - 1)) steps (w * m)]\<rparr>\<rparr>"

definition psc_handle_current :: "nat \<Rightarrow> real \<Rightarrow> real \<Rightarrow> glif_lif_psc \<Rightarrow> glif_lif_psc" where
  "psc_handle_current steps w c n = n\<lparr>B := (B n)\<lparr>currents := add_value (currents (B n)) steps (w * c)\<rparr>\<rparr>"


section \<open>Well-formed states and example states\<close>

text \<open>After \<open>calibrate\<close> every per-receptor vector of the node has one element per
  receptor; \<open>update\<close> indexes them without a range check.\<close>

definition sized :: "glif_lif_psc \<Rightarrow> bool" where
  "sized n = (let k = n_receptors (P n) in
     length (y1 (S n)) = k \<and> length (y2 (S n)) = k \<and> length (spikes (B n)) = k \<and>
     length (P11 (V n)) = k \<and> length (P21 (V n)) = k \<and> length (P22 (V n)) = k \<and>
     length (P31 (V n)) = k \<and> length (P32 (V n)) = k \<and> length (PSCInitialValues (V n)) = k)"

text \<open>The loop variables at the head of the loop.\<close>

definition start :: "'n \<Rightarrow> real \<Rightarrow> 'n loop" where
  "start n v = \<lparr>node = n, v_old = v, events = []\<rparr>"

text \<open>Concrete states on which the theorems below are instantiated: a node of each variant
  with unit conductance and capacitance, threshold 1, leak potential 0, and one receptor
  in the variant with synaptic currents. The arguments are the remaining refractory time,
  the membrane potential and the injected current. The host of the examples has
  propagators that are constantly 0 and a \<open>RingBuffer::resize()\<close> that keeps the buffer.\<close>

definition ex_host :: host where
  "ex_host = \<lparr>propagator_31 = (\<lambda>tau_syn tau c h. 0), propagator_32 = (\<lambda>tau_syn tau c h. 0),
     RingBuffer_resize = (\<lambda>b. b)\<rparr>"

definition ex_psc :: "real \<Rightarrow> real \<Rightarrow> real \<Rightarrow> glif_lif_psc" where
  "ex_psc r v c =
    \<lparr>P = \<lparr>th_inf = 1, G = 1, E_l = 0, C_m = 1, t_ref = 1/2, V_reset = 0,
           V_dynamics_method = ''linear_forward_euler'', tau_syn = [2], has_connections = True\<rparr>,
     S = \<lparr>V_m = v, I = c, y1 = [1], y2 = [2]\<rparr>,
     V = \<lparr>t_ref_remaining = r, t_ref_total = 1/2, method_flag = 0, P11 = [1/2], P21 = [1/4],
           P22 = [1/2], P31 = [1/8], P32 = [1/16], P30 = 1/2, P33 = 1/2, PSCInitialValues = [3]\<rparr>,
     B = \<lparr>spikes = [(\<lambda>_. 0)(0 := 5)], currents = (\<lambda>_. 0)(0 := 7)\<rparr>\<rparr>"

definition ex_plain :: "real \<Rightarrow> real \<Rightarrow> real \<Rightarrow> glif_lif" where
  "ex_plain r v c =
    \<lparr>P = \<lparr>th_inf = 1, G = 1, E_l = 0, C_m = 1, t_ref = 1, V_reset = 0,
           V_dynamics_method = ''linear_forward_euler''\<rparr>,
     S = \<lparr>V_m = v, I = c\<rparr>,
     V = \<lparr>t_ref_remaining = r, t_ref_total = 1/1000\<rparr>,
     B = \<lparr>spikes = (\<lambda>_. 0), currents = (\<lambda>_. 0)(0 := 7)\<rparr>\<rparr>"

text \<open>A node as the constructor \<open>glif_lif::glif_lif()\<close> leaves it. The constructor does
  not initialise the members of \<open>V_\<close>; \<open>calibrate\<close> assigns both before \<open>update\<close> reads
  them, and the model starts them at 0.\<close>

definition fresh :: glif_lif where
  "fresh = \<lparr>P = Parameters_default, S = State_default,
     V = \<lparr>t_ref_remaining = 0, t_ref_total = 0\<rparr>,
     B = \<lparr>spikes = (\<lambda>_. 0), currents = (\<lambda>_. 0)\<rparr>\<rparr>"

text \<open>A node as the constructor \<open>glif_lif_psc::glif_lif_psc()\<close> leaves it, the members
  of \<open>V_\<close> again started at 0 and the vectors empty.\<close>

definition psc_fresh :: glif_lif_psc where
  "psc_fresh = \<lparr>P = psc_Parameters_default, S = psc_State_default,
     V = \<lparr>t_ref_remaining = 0, t_ref_total = 0, method_flag = 0, P11 = [], P21 = [], P22 = [],
           P31 = [], P32 = [], P30 = 0, P33 = 0, PSCInitialValues = []\<rparr>,
     B = \<lparr>spikes = [], currents = (\<lambda>_. 0)\<rparr>\<rparr>"


section \<open>Runs\<close>

text \<open>A run is a sequence of calls of \<open>calibrate\<close> and of \<open>update\<close> (with its origin and its
  range of lags) at a fixed resolution \<open>h\<close>.\<close>

datatype call = Calibrate | Update int nat nat


fun psc_run :: "host \<Rightarrow> real \<Rightarrow> call list \<Rightarrow> glif_lif_psc \<Rightarrow> glif_lif_psc" where
  "psc_run k h [] n = n"
| "psc_run k h (Calibrate # cs) n = psc_run k h cs (psc_calibrate k h n)"
| "psc_run k h (Update origin from to # cs) n = psc_run k h cs (fst (psc_update h origin from to n))"


text \<open>The loop variables of either variant with the threshold \<open>t\<close> in place of
  \<open>th_inf\<close>.\<close>

definition with_threshold :: "real \<Rightarrow> ('a Parameters_scheme, 's, 'v, 'b) Node loop
    \<Rightarrow> ('a Parameters_scheme, 's, 'v, 'b) Node loop" where
  "with_threshold t l = l\<lparr>node := (node l)\<lparr>P := (P (node l))\<lparr>th_inf := t\<rparr>\<rparr>\<rparr>"

text \<open>The node whose current buffer holds \<open>c\<close> in the slot of lag \<open>k\<close>.\<close>

definition set_current :: "nat \<Rightarrow> real \<Rightarrow> glif_lif \<Rightarrow> glif_lif" where
  "set_current k c n = n\<lparr>B := (B n)\<lparr>currents := (currents (B n))(k := c)\<rparr>\<rparr>"

section \<open>Properties of the synaptic filter and of \<open>calibrate\<close>\<close>

lemma alpha_psc_simps:
  "P (alpha_psc lag i n) = P n"
  "V (alpha_psc lag i n) = V n"
  "V_m (S (alpha_psc lag i n)) = V_m (S n)"
  "I (S (alpha_psc lag i n)) = I (S n)"
  "currents (B (alpha_psc lag i n)) = currents (B n)"
  "length (y1 (S (alpha_psc lag i n))) = length (y1 (S n))"
  "length (y2 (S (alpha_psc lag i n))) = length (y2 (S n))"
  "length (spikes (B (alpha_psc lag i n))) = length (spikes (B n))"
  by (simp_all add: alpha_psc_def Let_def get_value_def)

lemma alpha_psc_y2:
  "y2 (S (alpha_psc lag i n)) =
     (y2 (S n))[i := P21 (V n) ! i * y1 (S n) ! i + P22 (V n) ! i * y2 (S n) ! i]"
  by (simp add: alpha_psc_def Let_def get_value_def)

lemma alpha_psc_y1:
  "y1 (S (alpha_psc lag i n)) =
     (y1 (S n))[i := y1 (S n) ! i * P11 (V n) ! i + PSCInitialValues (V n) ! i * (spikes (B n) ! i) lag]"
  by (cases "i < length (y1 (S n))") (simp_all add: alpha_psc_def Let_def get_value_def list_update_beyond)

lemma alpha_psc_spikes:
  "spikes (B (alpha_psc lag i n)) = (spikes (B n))[i := (spikes (B n) ! i)(lag := 0)]"
  by (simp add: alpha_psc_def Let_def get_value_def)

lemma fold_alpha_psc_simps:
  "P (fold (alpha_psc lag) is n) = P n"
  "V (fold (alpha_psc lag) is n) = V n"
  "V_m (S (fold (alpha_psc lag) is n)) = V_m (S n)"
  "I (S (fold (alpha_psc lag) is n)) = I (S n)"
  "currents (B (fold (alpha_psc lag) is n)) = currents (B n)"
  "length (y1 (S (fold (alpha_psc lag) is n))) = length (y1 (S n))"
  "length (y2 (S (fold (alpha_psc lag) is n))) = length (y2 (S n))"
  "length (spikes (B (fold (alpha_psc lag) is n))) = length (spikes (B n))"
  by (induction "is" arbitrary: n; simp add: alpha_psc_simps)+

lemma fold_alpha_psc_upt:
  assumes "k \<le> length (y1 (S n))" "k \<le> length (y2 (S n))" "k \<le> length (spikes (B n))"
  shows "y2 (S (fold (alpha_psc lag) [0..<k] n)) ! i =
           (if i < k then P21 (V n) ! i * y1 (S n) ! i + P22 (V n) ! i * y2 (S n) ! i
            else y2 (S n) ! i)
       \<and> y1 (S (fold (alpha_psc lag) [0..<k] n)) ! i =
           (if i < k then y1 (S n) ! i * P11 (V n) ! i
                          + PSCInitialValues (V n) ! i * (spikes (B n) ! i) lag
            else y1 (S n) ! i)
       \<and> spikes (B (fold (alpha_psc lag) [0..<k] n)) ! i =
           (if i < k then (spikes (B n) ! i)(lag := 0) else spikes (B n) ! i)"
  using assms
proof (induction k arbitrary: i)
  case 0
  show ?case by simp
next
  case (Suc k)
  let ?m = "fold (alpha_psc lag) [0..<k] n"
  have len: "k < length (y1 (S ?m))" "k < length (y2 (S ?m))" "k < length (spikes (B ?m))"
    using Suc.prems by (simp_all add: fold_alpha_psc_simps)
  have le: "k \<le> length (y1 (S n))" "k \<le> length (y2 (S n))" "k \<le> length (spikes (B n))"
    using Suc.prems by simp_all
  note ih = Suc.IH[OF le]
  show ?case using len
    by (auto simp add: alpha_psc_y1 alpha_psc_y2 alpha_psc_spikes fold_alpha_psc_simps ih
        nth_list_update less_Suc_eq)
qed


lemma psc_voltage_step_frame:
  "P (fst (psc_voltage_step h origin lag vo n)) = P n"
  "B (fst (psc_voltage_step h origin lag vo n)) = B n"
  "y1 (S (fst (psc_voltage_step h origin lag vo n))) = y1 (S n)"
  "y2 (S (fst (psc_voltage_step h origin lag vo n))) = y2 (S n)"
  "I (S (fst (psc_voltage_step h origin lag vo n))) = I (S n)"
  "P11 (V (fst (psc_voltage_step h origin lag vo n))) = P11 (V n)"
  "P21 (V (fst (psc_voltage_step h origin lag vo n))) = P21 (V n)"
  "P22 (V (fst (psc_voltage_step h origin lag vo n))) = P22 (V n)"
  "P31 (V (fst (psc_voltage_step h origin lag vo n))) = P31 (V n)"
  "P32 (V (fst (psc_voltage_step h origin lag vo n))) = P32 (V n)"
  "P30 (V (fst (psc_voltage_step h origin lag vo n))) = P30 (V n)"
  "P33 (V (fst (psc_voltage_step h origin lag vo n))) = P33 (V n)"
  "PSCInitialValues (V (fst (psc_voltage_step h origin lag vo n))) = PSCInitialValues (V n)"
  "method_flag (V (fst (psc_voltage_step h origin lag vo n))) = method_flag (V n)"
  "t_ref_total (V (fst (psc_voltage_step h origin lag vo n))) = t_ref_total (V n)"
  by (simp_all add: psc_voltage_step_def Let_def)

lemma psc_update_lag_node:
  "node (psc_update_lag h origin lag l) =
     (let n1 = fst (psc_voltage_step h origin lag (v_old l) (node l));
          n2 = fold (alpha_psc lag) [0..<n_receptors (P (node l))] n1
      in n2\<lparr>S := (S n2)\<lparr>I := currents (B (node l)) lag\<rparr>,
            B := (B n2)\<lparr>currents := (currents (B (node l)))(lag := 0)\<rparr>\<rparr>)"
  by (simp add: psc_update_lag_def Let_def get_value_def split_beta
      psc_voltage_step_frame fold_alpha_psc_simps)

lemma psc_update_lag_filter:
  assumes "sized (node l)" "i < n_receptors (P (node l))"
  shows "y2 (S (node (psc_update_lag h origin lag l))) ! i =
           P21 (V (node l)) ! i * y1 (S (node l)) ! i + P22 (V (node l)) ! i * y2 (S (node l)) ! i"
    and "y1 (S (node (psc_update_lag h origin lag l))) ! i =
           y1 (S (node l)) ! i * P11 (V (node l)) ! i
            + PSCInitialValues (V (node l)) ! i * (spikes (B (node l)) ! i) lag"
    and "spikes (B (node (psc_update_lag h origin lag l))) ! i = (spikes (B (node l)) ! i)(lag := 0)"
proof -
  let ?n1 = "fst (psc_voltage_step h origin lag (v_old l) (node l))"
  let ?k = "n_receptors (P (node l))"
  have le: "?k \<le> length (y1 (S ?n1))" "?k \<le> length (y2 (S ?n1))" "?k \<le> length (spikes (B ?n1))"
    using assms(1) by (simp_all add: sized_def Let_def psc_voltage_step_frame)
  note f = fold_alpha_psc_upt[OF le, of lag i]
  show "y2 (S (node (psc_update_lag h origin lag l))) ! i =
           P21 (V (node l)) ! i * y1 (S (node l)) ! i + P22 (V (node l)) ! i * y2 (S (node l)) ! i"
    using f assms(2) by (simp add: psc_update_lag_node Let_def psc_voltage_step_frame)
  show "y1 (S (node (psc_update_lag h origin lag l))) ! i =
           y1 (S (node l)) ! i * P11 (V (node l)) ! i
            + PSCInitialValues (V (node l)) ! i * (spikes (B (node l)) ! i) lag"
    using f assms(2) by (simp add: psc_update_lag_node Let_def psc_voltage_step_frame)
  show "spikes (B (node (psc_update_lag h origin lag l))) ! i = (spikes (B (node l)) ! i)(lag := 0)"
    using f assms(2) by (simp add: psc_update_lag_node Let_def psc_voltage_step_frame)
qed


lemma calibrate_receptor_frame:
  "P (calibrate_receptor k h Tau i n) = P n"
  "S (calibrate_receptor k h Tau i n) = S n"
  "currents (B (calibrate_receptor k h Tau i n)) = currents (B n)"
  "method_flag (V (calibrate_receptor k h Tau i n)) = method_flag (V n)"
  "t_ref_remaining (V (calibrate_receptor k h Tau i n)) = t_ref_remaining (V n)"
  "t_ref_total (V (calibrate_receptor k h Tau i n)) = t_ref_total (V n)"
  "P30 (V (calibrate_receptor k h Tau i n)) = P30 (V n)"
  "P33 (V (calibrate_receptor k h Tau i n)) = P33 (V n)"
  "length (P11 (V (calibrate_receptor k h Tau i n))) = length (P11 (V n))"
  "length (P21 (V (calibrate_receptor k h Tau i n))) = length (P21 (V n))"
  "length (P22 (V (calibrate_receptor k h Tau i n))) = length (P22 (V n))"
  "length (P31 (V (calibrate_receptor k h Tau i n))) = length (P31 (V n))"
  "length (P32 (V (calibrate_receptor k h Tau i n))) = length (P32 (V n))"
  "length (PSCInitialValues (V (calibrate_receptor k h Tau i n))) = length (PSCInitialValues (V n))"
  "length (spikes (B (calibrate_receptor k h Tau i n))) = length (spikes (B n))"
  by (simp_all add: calibrate_receptor_def Let_def)

lemma fold_calibrate_receptor_frame:
  "P (fold (calibrate_receptor k h Tau) is n) = P n"
  "S (fold (calibrate_receptor k h Tau) is n) = S n"
  "currents (B (fold (calibrate_receptor k h Tau) is n)) = currents (B n)"
  "method_flag (V (fold (calibrate_receptor k h Tau) is n)) = method_flag (V n)"
  "t_ref_remaining (V (fold (calibrate_receptor k h Tau) is n)) = t_ref_remaining (V n)"
  "t_ref_total (V (fold (calibrate_receptor k h Tau) is n)) = t_ref_total (V n)"
  "P30 (V (fold (calibrate_receptor k h Tau) is n)) = P30 (V n)"
  "P33 (V (fold (calibrate_receptor k h Tau) is n)) = P33 (V n)"
  "length (P11 (V (fold (calibrate_receptor k h Tau) is n))) = length (P11 (V n))"
  "length (P21 (V (fold (calibrate_receptor k h Tau) is n))) = length (P21 (V n))"
  "length (P22 (V (fold (calibrate_receptor k h Tau) is n))) = length (P22 (V n))"
  "length (P31 (V (fold (calibrate_receptor k h Tau) is n))) = length (P31 (V n))"
  "length (P32 (V (fold (calibrate_receptor k h Tau) is n))) = length (P32 (V n))"
  "length (PSCInitialValues (V (fold (calibrate_receptor k h Tau) is n))) = length (PSCInitialValues (V n))"
  "length (spikes (B (fold (calibrate_receptor k h Tau) is n))) = length (spikes (B n))"
  by (induction "is" arbitrary: n; simp add: calibrate_receptor_frame)+

lemma calibrate_receptor_coeff:
  assumes "i < length (P11 (V n))" "i < length (P21 (V n))" "i < length (P22 (V n))"
    "i < length (PSCInitialValues (V n))"
  shows "P11 (V (calibrate_receptor k h Tau i n)) ! j =
           (if j = i then exp (- h / tau_syn (P n) ! i) else P11 (V n) ! j)"
    and "P22 (V (calibrate_receptor k h Tau i n)) ! j =
           (if j = i then exp (- h / tau_syn (P n) ! i) else P22 (V n) ! j)"
    and "P21 (V (calibrate_receptor k h Tau i n)) ! j =
           (if j = i then h * exp (- h / tau_syn (P n) ! i) else P21 (V n) ! j)"
    and "PSCInitialValues (V (calibrate_receptor k h Tau i n)) ! j =
           (if j = i then exp 1 / tau_syn (P n) ! i else PSCInitialValues (V n) ! j)"
  using assms by (simp_all add: calibrate_receptor_def Let_def nth_list_update)

lemma fold_calibrate_receptor_coeff:
  assumes "m \<le> length (P11 (V n))" "m \<le> length (P21 (V n))" "m \<le> length (P22 (V n))"
    "m \<le> length (PSCInitialValues (V n))" "i < m"
  shows "P11 (V (fold (calibrate_receptor k h Tau) [0..<m] n)) ! i = exp (- h / tau_syn (P n) ! i)
       \<and> P22 (V (fold (calibrate_receptor k h Tau) [0..<m] n)) ! i = exp (- h / tau_syn (P n) ! i)
       \<and> P21 (V (fold (calibrate_receptor k h Tau) [0..<m] n)) ! i = h * exp (- h / tau_syn (P n) ! i)
       \<and> PSCInitialValues (V (fold (calibrate_receptor k h Tau) [0..<m] n)) ! i
            = exp 1 / tau_syn (P n) ! i"
  using assms
proof (induction m)
  case 0
  then show ?case by simp
next
  case (Suc m)
  let ?n = "fold (calibrate_receptor k h Tau) [0..<m] n"
  have len: "m < length (P11 (V ?n))" "m < length (P21 (V ?n))" "m < length (P22 (V ?n))"
    "m < length (PSCInitialValues (V ?n))"
    using Suc.prems by (simp_all add: fold_calibrate_receptor_frame)
  show ?case
  proof (cases "i = m")
    case True
    then show ?thesis
      by (simp add: calibrate_receptor_coeff[OF len] fold_calibrate_receptor_frame)
  next
    case False
    with Suc.prems have "i < m" by simp
    with Suc have ih: "P11 (V ?n) ! i = exp (- h / tau_syn (P n) ! i)"
      "P22 (V ?n) ! i = exp (- h / tau_syn (P n) ! i)"
      "P21 (V ?n) ! i = h * exp (- h / tau_syn (P n) ! i)"
      "PSCInitialValues (V ?n) ! i = exp 1 / tau_syn (P n) ! i"
      by simp_all
    from False show ?thesis
      by (simp add: calibrate_receptor_coeff[OF len] ih)
  qed
qed

lemma length_resize: "length (resize z k xs) = k"
  by (auto simp add: resize_def)

lemma psc_calibrate_coeff:
  assumes "i < n_receptors (P n)"
  shows "P11 (V (psc_calibrate k h n)) ! i = exp (- h / tau_syn (P n) ! i)"
    and "P22 (V (psc_calibrate k h n)) ! i = exp (- h / tau_syn (P n) ! i)"
    and "P21 (V (psc_calibrate k h n)) ! i = h * exp (- h / tau_syn (P n) ! i)"
    and "PSCInitialValues (V (psc_calibrate k h n)) ! i = exp 1 / tau_syn (P n) ! i"
  using assms
    fold_calibrate_receptor_coeff[of "n_receptors (P n)" _ i k h "C_m (P n) / G (P n)"]
  by (simp_all add: psc_calibrate_def Let_def length_resize)

lemma psc_calibrate_sized: "sized (psc_calibrate k h n)"
  by (simp add: psc_calibrate_def sized_def Let_def fold_calibrate_receptor_frame length_resize)

lemma psc_calibrate_frame:
  "P (psc_calibrate k h n) = P n"
  "t_ref_remaining (V (psc_calibrate k h n)) = 0"
  "t_ref_total (V (psc_calibrate k h n)) = t_ref (P n)"
  "method_flag (V (psc_calibrate k h n)) = (if V_dynamics_method (P n) = ''linear_exact'' then 1 else 0)"
  by (simp_all add: psc_calibrate_def Let_def fold_calibrate_receptor_frame)

lemma psc_update_lag_sized: "sized (node l) \<Longrightarrow> sized (node (psc_update_lag h origin lag l))"
  by (simp add: psc_update_lag_node Let_def sized_def fold_alpha_psc_simps psc_voltage_step_frame)



text \<open>
  C1. On every step of \<open>glif_lif_psc::update\<close>, and for every receptor \<open>i\<close>, the second
  synaptic state becomes \<open>P21[i] * y1[i] + P22[i] * y2[i]\<close> with the old \<open>y1[i]\<close>, the
  first synaptic state is multiplied by \<open>P11[i]\<close> and then receives
  \<open>PSCInitialValues[i]\<close> times the value drained from the spike buffer of the receptor at
  this lag; the step leaves the coefficients as they are, and \<open>calibrate\<close> computes them as
  \<open>P11[i] = P22[i] = exp (- h / tau_syn[i])\<close>, \<open>P21[i] = h * exp (- h / tau_syn[i])\<close> and
  \<open>PSCInitialValues[i] = e / tau_syn[i]\<close>.
\<close>

theorem C1_synaptic_filter:
  assumes "sized (node l)" and "i < n_receptors (P (node l))" and "i < n_receptors (P n)"
  shows "y2 (S (node (psc_update_lag h origin lag l))) ! i =
           P21 (V (node l)) ! i * y1 (S (node l)) ! i + P22 (V (node l)) ! i * y2 (S (node l)) ! i
       \<and> y1 (S (node (psc_update_lag h origin lag l))) ! i =
           y1 (S (node l)) ! i * P11 (V (node l)) ! i
            + PSCInitialValues (V (node l)) ! i * (spikes (B (node l)) ! i) lag
       \<and> P11 (V (node (psc_update_lag h origin lag l))) = P11 (V (node l))
       \<and> P21 (V (node (psc_update_lag h origin lag l))) = P21 (V (node l))
       \<and> P22 (V (node (psc_update_lag h origin lag l))) = P22 (V (node l))
       \<and> PSCInitialValues (V (node (psc_update_lag h origin lag l))) = PSCInitialValues (V (node l))
       \<and> P11 (V (psc_calibrate k h n)) ! i = exp (- h / tau_syn (P n) ! i)
       \<and> P22 (V (psc_calibrate k h n)) ! i = exp (- h / tau_syn (P n) ! i)
       \<and> P21 (V (psc_calibrate k h n)) ! i = h * exp (- h / tau_syn (P n) ! i)
       \<and> PSCInitialValues (V (psc_calibrate k h n)) ! i = exp 1 / tau_syn (P n) ! i"
  using psc_update_lag_filter[OF assms(1,2)] psc_calibrate_coeff[OF assms(3)]
  by (simp add: psc_update_lag_node Let_def fold_alpha_psc_simps psc_voltage_step_frame)

lemma ex_psc_sized: "sized (ex_psc r v c)"
  by (simp add: sized_def ex_psc_def n_receptors_def)

theorem C1_synaptic_filter_witness:
  "sized (node (start (ex_psc 0 0 0) 0)) \<and> (0::nat) < n_receptors (P (node (start (ex_psc 0 0 0) 0)))
   \<and> 0 < n_receptors (P (ex_psc 0 0 0))
   \<and> y2 (S (node (psc_update_lag 1 0 0 (start (ex_psc 0 0 0) 0)))) ! 0 = 5/4
   \<and> y1 (S (node (psc_update_lag 1 0 0 (start (ex_psc 0 0 0) 0)))) ! 0 = 31/2
   \<and> P21 (V (psc_calibrate ex_host 1 (ex_psc 0 0 0))) ! 0 = exp (- 1 / 2)"
proof -
  have a: "sized (node (start (ex_psc 0 0 0) 0))" by (simp add: start_def ex_psc_sized)
  have b: "0 < n_receptors (P (node (start (ex_psc 0 0 0) 0)))"
    by (simp add: start_def ex_psc_def n_receptors_def)
  have c: "0 < n_receptors (P (ex_psc 0 0 0))" by (simp add: ex_psc_def n_receptors_def)
  show ?thesis
    using a b c C1_synaptic_filter[OF a b c, of 1 0 0 ex_host]
    by (simp add: start_def ex_psc_def)
qed

section \<open>The refractory count-down\<close>

lemma voltage_step_refractory:
  assumes "t_ref_remaining (V n) > 0"
  shows "voltage_step h origin lag vo n =
    (n\<lparr>V := (V n)\<lparr>t_ref_remaining := t_ref_remaining (V n) - h * 0.001\<rparr>,
       S := (S n)\<lparr>V_m := if t_ref_remaining (V n) - h * 0.001 > 0 then vo else V_reset (P n)\<rparr>\<rparr>, [])"
  using assms by (simp add: voltage_step_def Let_def not_le)

lemma psc_voltage_step_refractory:
  assumes "t_ref_remaining (V n) > 0"
  shows "psc_voltage_step h origin lag vo n =
    (n\<lparr>V := (V n)\<lparr>t_ref_remaining := t_ref_remaining (V n) - h\<rparr>,
       S := (S n)\<lparr>V_m := if t_ref_remaining (V n) - h > 0 then vo else V_reset (P n)\<rparr>\<rparr>, [])"
  using assms by (simp add: psc_voltage_step_def Let_def not_le)

lemma update_lag_fields:
  "V (node (update_lag h origin lag l)) = V (fst (voltage_step h origin lag (v_old l) (node l)))"
  "P (node (update_lag h origin lag l)) = P (fst (voltage_step h origin lag (v_old l) (node l)))"
  "V_m (S (node (update_lag h origin lag l))) = V_m (S (fst (voltage_step h origin lag (v_old l) (node l))))"
  "v_old (update_lag h origin lag l) = V_m (S (node (update_lag h origin lag l)))"
  "events (update_lag h origin lag l) = events l @ snd (voltage_step h origin lag (v_old l) (node l))
      @ [RecordData (origin + int lag) (V_m (S (node (update_lag h origin lag l))))]"
  by (simp_all add: update_lag_def Let_def split_beta get_value_def)

lemma psc_update_lag_fields:
  "V (node (psc_update_lag h origin lag l)) = V (fst (psc_voltage_step h origin lag (v_old l) (node l)))"
  "P (node (psc_update_lag h origin lag l)) = P (node l)"
  "V_m (S (node (psc_update_lag h origin lag l))) = V_m (S (fst (psc_voltage_step h origin lag (v_old l) (node l))))"
  "v_old (psc_update_lag h origin lag l) = V_m (S (node (psc_update_lag h origin lag l)))"
  "events (psc_update_lag h origin lag l) = events l @ snd (psc_voltage_step h origin lag (v_old l) (node l))
      @ [RecordData (origin + int lag) (V_m (S (node (psc_update_lag h origin lag l))))]"
  by (simp_all add: psc_update_lag_def Let_def split_beta get_value_def fold_alpha_psc_simps
      psc_voltage_step_frame)

text \<open>
  C2. A step of either variant that starts with \<open>t_ref_remaining > 0\<close> lowers
  \<open>t_ref_remaining\<close> by the step (\<open>h / 1000\<close> seconds in \<open>glif_lif\<close>, \<open>h\<close> milliseconds in
  \<open>glif_lif_psc\<close>); the membrane potential becomes \<open>v_old\<close> when the lowered value is still
  positive and \<open>V_reset\<close> otherwise; the step hands no spike to the host, only the logged
  potential, and the result depends neither on the injected current nor on the threshold.
\<close>

theorem C2_refractory_step:
  fixes l :: "glif_lif loop" and m :: "glif_lif_psc loop"
  shows "(t_ref_remaining (V (node l)) > 0 \<longrightarrow>
           t_ref_remaining (V (node (update_lag h origin lag l))) = t_ref_remaining (V (node l)) - h * 0.001
         \<and> V_m (S (node (update_lag h origin lag l))) =
             (if t_ref_remaining (V (node l)) - h * 0.001 > 0 then v_old l else V_reset (P (node l)))
         \<and> events (update_lag h origin lag l) =
             events l @ [RecordData (origin + int lag) (V_m (S (node (update_lag h origin lag l))))])
       \<and> (t_ref_remaining (V (node m)) > 0 \<longrightarrow>
           t_ref_remaining (V (node (psc_update_lag h origin lag m))) = t_ref_remaining (V (node m)) - h
         \<and> V_m (S (node (psc_update_lag h origin lag m))) =
             (if t_ref_remaining (V (node m)) - h > 0 then v_old m else V_reset (P (node m)))
         \<and> events (psc_update_lag h origin lag m) =
             events m @ [RecordData (origin + int lag) (V_m (S (node (psc_update_lag h origin lag m))))])"
  by (simp add: update_lag_fields psc_update_lag_fields voltage_step_refractory
      psc_voltage_step_refractory)

theorem C2_refractory_step_witness:
  "t_ref_remaining (V (node (start (ex_plain (1/1000) 2 0) 2))) > 0
   \<and> t_ref_remaining (V (node (update_lag (1/2) 0 0 (start (ex_plain (1/1000) 2 0) 2)))) = 1/2000
   \<and> V_m (S (node (update_lag (1/2) 0 0 (start (ex_plain (1/1000) 2 0) 2)))) = 2
   \<and> V_m (S (node (update_lag 1 0 0 (start (ex_plain (1/1000) 2 0) 2)))) = 0
   \<and> events (update_lag 1 0 0 (start (ex_plain (1/1000) 2 0) 2)) = [RecordData 0 0]
   \<and> t_ref_remaining (V (node (start (ex_psc (1/2) 2 0) 2))) > 0
   \<and> t_ref_remaining (V (node (psc_update_lag (1/4) 0 0 (start (ex_psc (1/2) 2 0) 2)))) = 1/4
   \<and> V_m (S (node (psc_update_lag (1/4) 0 0 (start (ex_psc (1/2) 2 0) 2)))) = 2
   \<and> V_m (S (node (psc_update_lag (1/2) 0 0 (start (ex_psc (1/2) 2 0) 2)))) = 0
   \<and> events (psc_update_lag (1/2) 0 0 (start (ex_psc (1/2) 2 0) 2)) = [RecordData 0 0]"
  using C2_refractory_step[of "start (ex_plain (1/1000) 2 0) 2" "1/2" 0 0 "start (ex_psc (1/2) 2 0) 2"]
    C2_refractory_step[of "start (ex_plain (1/1000) 2 0) 2" 1 0 0 "start (ex_psc (1/2) 2 0) 2"]
    C2_refractory_step[of "start (ex_plain (1/1000) 2 0) 2" "1/4" 0 0 "start (ex_psc (1/2) 2 0) 2"]
  by (simp add: start_def ex_plain_def ex_psc_def)


section \<open>The threshold test and the spike offset\<close>


lemma voltage_step_integrating:
  assumes "\<not> t_ref_remaining (V n) > 0"
  shows "snd (voltage_step h origin lag vo n) =
    (if V_m (S (fst (voltage_step h origin lag vo n))) > th_inf (P n)
     then [SetSpiketime (origin + int lag + 1)
             (spike_offset (th_inf (P n)) vo (V_m (S (fst (voltage_step h origin lag vo n)))) h),
           Send lag (spike_offset (th_inf (P n)) vo (V_m (S (fst (voltage_step h origin lag vo n)))) h)]
     else [])"
  using assms by (simp add: voltage_step_def Let_def)

lemma psc_voltage_step_integrating:
  assumes "\<not> t_ref_remaining (V n) > 0"
  shows "snd (psc_voltage_step h origin lag vo n) =
    (if V_m (S (fst (psc_voltage_step h origin lag vo n))) > th_inf (P n)
     then [SetSpiketime (origin + int lag + 1)
             (spike_offset (th_inf (P n)) vo (V_m (S (fst (psc_voltage_step h origin lag vo n)))) h),
           Send lag (spike_offset (th_inf (P n)) vo (V_m (S (fst (psc_voltage_step h origin lag vo n)))) h)]
     else [])"
  using assms by (simp add: psc_voltage_step_def Let_def)

lemma spike_offset_Some:
  "vm \<noteq> vo \<Longrightarrow> spike_offset th vo vm h = Some ((1 - (th - vo) / (vm - vo)) * h)"
  by (simp add: spike_offset_def fdiv_def)

lemma spike_offset_None: "spike_offset th vo vo h = None"
  by (simp add: spike_offset_def fdiv_def)

lemma spike_offset_None_iff: "spike_offset th vo vm h = None \<longleftrightarrow> vm = vo"
  by (simp add: spike_offset_def fdiv_def)

lemma crossing_fraction:
  fixes th vo vm :: real
  assumes "vo \<le> th" "th < vm"
  shows "0 \<le> (th - vo) / (vm - vo)" and "(th - vo) / (vm - vo) \<le> 1"
  using assms by (auto simp add: divide_simps)

lemma offset_bounds:
  fixes th vo vm h :: real
  assumes "vo \<le> th" "th < vm" "0 \<le> h"
  shows "0 \<le> (1 - (th - vo) / (vm - vo)) * h" and "(1 - (th - vo) / (vm - vo)) * h \<le> h"
proof -
  note f = crossing_fraction[OF assms(1,2)]
  show "0 \<le> (1 - (th - vo) / (vm - vo)) * h" using f(2) assms(3) by simp
  have "(1 - (th - vo) / (vm - vo)) \<le> 1" using f(1) by simp
  then have "(1 - (th - vo) / (vm - vo)) * h \<le> 1 * h" using assms(3)
    by (rule mult_right_mono)
  then show "(1 - (th - vo) / (vm - vo)) * h \<le> h" by simp
qed

lemma offset_antitone:
  fixes th th' vo vm h :: real
  assumes "vo < vm" "th \<le> th'" "0 \<le> h"
  shows "(1 - (th' - vo) / (vm - vo)) * h \<le> (1 - (th - vo) / (vm - vo)) * h"
proof -
  have "(th - vo) / (vm - vo) \<le> (th' - vo) / (vm - vo)"
    using assms(1,2) by (simp add: divide_right_mono)
  then have "1 - (th' - vo) / (vm - vo) \<le> 1 - (th - vo) / (vm - vo)" by simp
  then show ?thesis using assms(3) by (rule mult_right_mono)
qed

lemma add_synapse_frame:
  "add_synapse (n\<lparr>P := p\<rparr>) = add_synapse n"
  "add_synapse (n\<lparr>S := (S n)\<lparr>V_m := x\<rparr>\<rparr>) = add_synapse n"
  "add_synapse (n\<lparr>P := p, S := (S n)\<lparr>V_m := x\<rparr>\<rparr>) = add_synapse n"
  by (simp_all add: add_synapse_def fun_eq_iff)

lemma voltage_step_th_inf:
  "V_m (S (fst (voltage_step h origin lag vo (n\<lparr>P := (P n)\<lparr>th_inf := t\<rparr>\<rparr>)))) =
   V_m (S (fst (voltage_step h origin lag vo n)))"
  by (simp add: voltage_step_def Let_def)

lemma psc_voltage_step_th_inf:
  "V_m (S (fst (psc_voltage_step h origin lag vo (n\<lparr>P := (P n)\<lparr>th_inf := t\<rparr>\<rparr>)))) =
   V_m (S (fst (psc_voltage_step h origin lag vo n)))"
  by (simp add: psc_voltage_step_def Let_def add_synapse_frame n_receptors_def)

lemma update_lag_spike:
  assumes "\<not> 0 < t_ref_remaining (V (node l))"
  shows "events (update_lag h origin lag l) = events l @
     (if V_m (S (node (update_lag h origin lag l))) > th_inf (P (node l))
      then [SetSpiketime (origin + int lag + 1)
              (spike_offset (th_inf (P (node l))) (v_old l) (V_m (S (node (update_lag h origin lag l)))) h),
            Send lag
              (spike_offset (th_inf (P (node l))) (v_old l) (V_m (S (node (update_lag h origin lag l)))) h)]
      else [])
     @ [RecordData (origin + int lag) (V_m (S (node (update_lag h origin lag l))))]"
  using assms by (simp add: update_lag_fields voltage_step_integrating)

lemma psc_update_lag_spike:
  assumes "\<not> 0 < t_ref_remaining (V (node l))"
  shows "events (psc_update_lag h origin lag l) = events l @
     (if V_m (S (node (psc_update_lag h origin lag l))) > th_inf (P (node l))
      then [SetSpiketime (origin + int lag + 1)
              (spike_offset (th_inf (P (node l))) (v_old l) (V_m (S (node (psc_update_lag h origin lag l)))) h),
            Send lag
              (spike_offset (th_inf (P (node l))) (v_old l) (V_m (S (node (psc_update_lag h origin lag l)))) h)]
      else [])
     @ [RecordData (origin + int lag) (V_m (S (node (psc_update_lag h origin lag l))))]"
  using assms by (simp add: psc_update_lag_fields psc_voltage_step_integrating)

text \<open>
  C3, as the code has it. On a step of either variant that is not refractory and starts
  with \<open>v_old \<le> th_inf\<close>, for a resolution \<open>h \<ge> 0\<close> and a capacitance other than 0 (and a
  conductance other than 0 where the exact method divides by \<open>G / C_m\<close>): if the new
  potential exceeds the threshold, the step hands the host one spike with the offset
  \<open>(1 - (th_inf - v_old) / (V_m - v_old)) * h\<close>, which lies between 0 and \<open>h\<close> and is \<open>h\<close>
  when \<open>v_old = th_inf\<close>, the crossing at the very start of the step; the later the
  crossing, the smaller the offset: with a threshold \<open>th'\<close> between \<open>th_inf\<close> and the new
  potential in place of \<open>th_inf\<close>, the same step emits an offset that is not larger. If the
  new potential is at most the threshold (equal to it, in particular) no spike is handed
  over. The resolution \<open>h\<close> is in milliseconds in both variants, although \<open>glif_lif\<close>
  integrates with the step \<open>h / 1000\<close>. The bounds are the non-strict ones, which the
  rounded operations of the doubles keep.
\<close>

theorem C3_spike_offset:
  fixes l :: "glif_lif loop" and m :: "glif_lif_psc loop"
  assumes "0 \<le> h"
  shows "(\<not> 0 < t_ref_remaining (V (node l)) \<and> v_old l \<le> th_inf (P (node l))
           \<and> C_m (P (node l)) \<noteq> 0
           \<and> (V_dynamics_method (P (node l)) = ''linear_exact'' \<longrightarrow> G (P (node l)) \<noteq> 0) \<longrightarrow>
          (let th = th_inf (P (node l)); vo = v_old l;
               vn = V_m (S (node (update_lag h origin lag l)));
               offs = (1 - (th - vo) / (vn - vo)) * h;
               offs' = (1 - (th' - vo) / (vn - vo)) * h
           in (th < vn \<longrightarrow>
                 events (update_lag h origin lag l) = events l @
                   [SetSpiketime (origin + int lag + 1) (Some offs), Send lag (Some offs),
                    RecordData (origin + int lag) vn]
                 \<and> 0 \<le> offs \<and> offs \<le> h \<and> (vo = th \<longrightarrow> offs = h)
                 \<and> (th \<le> th' \<and> th' < vn \<longrightarrow>
                      events (update_lag h origin lag (with_threshold th' l)) = events l @
                        [SetSpiketime (origin + int lag + 1) (Some offs'), Send lag (Some offs'),
                         RecordData (origin + int lag) vn]
                      \<and> offs' \<le> offs))
            \<and> (vn \<le> th \<longrightarrow>
                 events (update_lag h origin lag l) = events l @ [RecordData (origin + int lag) vn])))
       \<and> (\<not> 0 < t_ref_remaining (V (node m)) \<and> v_old m \<le> th_inf (P (node m))
           \<and> (method_flag (V (node m)) = 0 \<longrightarrow> C_m (P (node m)) \<noteq> 0) \<longrightarrow>
          (let th = th_inf (P (node m)); vo = v_old m;
               vn = V_m (S (node (psc_update_lag h origin lag m)));
               offs = (1 - (th - vo) / (vn - vo)) * h;
               offs' = (1 - (th' - vo) / (vn - vo)) * h
           in (th < vn \<longrightarrow>
                 events (psc_update_lag h origin lag m) = events m @
                   [SetSpiketime (origin + int lag + 1) (Some offs), Send lag (Some offs),
                    RecordData (origin + int lag) vn]
                 \<and> 0 \<le> offs \<and> offs \<le> h \<and> (vo = th \<longrightarrow> offs = h)
                 \<and> (th \<le> th' \<and> th' < vn \<longrightarrow>
                      events (psc_update_lag h origin lag (with_threshold th' m)) = events m @
                        [SetSpiketime (origin + int lag + 1) (Some offs'), Send lag (Some offs'),
                         RecordData (origin + int lag) vn]
                      \<and> offs' \<le> offs))
            \<and> (vn \<le> th \<longrightarrow>
                 events (psc_update_lag h origin lag m) = events m @ [RecordData (origin + int lag) vn])))"
proof -
  have pl: "events (update_lag h origin lag l) = events l @
        [SetSpiketime (origin + int lag + 1) (Some ((1 - (t - v_old l) / (V_m (S (node (update_lag h origin lag l))) - v_old l)) * h)),
         Send lag (Some ((1 - (t - v_old l) / (V_m (S (node (update_lag h origin lag l))) - v_old l)) * h)),
         RecordData (origin + int lag) (V_m (S (node (update_lag h origin lag l))))]"
    if "\<not> 0 < t_ref_remaining (V (node l))" "v_old l \<le> t" "th_inf (P (node l)) = t"
       "t < V_m (S (node (update_lag h origin lag l)))" for t and l :: "glif_lif loop"
    using that update_lag_spike[OF that(1), of h origin lag]
    by (simp add: spike_offset_Some)
  have pl0: "events (update_lag h origin lag l) = events l @
        [RecordData (origin + int lag) (V_m (S (node (update_lag h origin lag l))))]"
    if "\<not> 0 < t_ref_remaining (V (node l))"
       "V_m (S (node (update_lag h origin lag l))) \<le> th_inf (P (node l))"
    using that update_lag_spike[OF that(1), of h origin lag] by simp
  have plw: "V_m (S (node (update_lag h origin lag (with_threshold t l)))) = V_m (S (node (update_lag h origin lag l)))"
      "t_ref_remaining (V (node (with_threshold t l))) = t_ref_remaining (V (node l))"
      "v_old (with_threshold t l) = v_old l" "events (with_threshold t l) = events l"
      "th_inf (P (node (with_threshold t l))) = t" for t
    by (simp_all add: with_threshold_def update_lag_fields voltage_step_th_inf)
  have pl': "events (update_lag h origin lag (with_threshold t l)) = events l @
        [SetSpiketime (origin + int lag + 1) (Some ((1 - (t - v_old l) / (V_m (S (node (update_lag h origin lag l))) - v_old l)) * h)),
         Send lag (Some ((1 - (t - v_old l) / (V_m (S (node (update_lag h origin lag l))) - v_old l)) * h)),
         RecordData (origin + int lag) (V_m (S (node (update_lag h origin lag l))))]"
    if "\<not> 0 < t_ref_remaining (V (node l))" "v_old l \<le> t"
       "t < V_m (S (node (update_lag h origin lag l)))" for t
    using pl[of "with_threshold t l" t] that by (simp add: plw)
  have ps: "events (psc_update_lag h origin lag m) = events m @
        [SetSpiketime (origin + int lag + 1) (Some ((1 - (t - v_old m) / (V_m (S (node (psc_update_lag h origin lag m))) - v_old m)) * h)),
         Send lag (Some ((1 - (t - v_old m) / (V_m (S (node (psc_update_lag h origin lag m))) - v_old m)) * h)),
         RecordData (origin + int lag) (V_m (S (node (psc_update_lag h origin lag m))))]"
    if "\<not> 0 < t_ref_remaining (V (node m))" "v_old m \<le> t" "th_inf (P (node m)) = t"
       "t < V_m (S (node (psc_update_lag h origin lag m)))" for t and m :: "glif_lif_psc loop"
    using that psc_update_lag_spike[OF that(1), of h origin lag]
    by (simp add: spike_offset_Some)
  have ps0: "events (psc_update_lag h origin lag m) = events m @
        [RecordData (origin + int lag) (V_m (S (node (psc_update_lag h origin lag m))))]"
    if "\<not> 0 < t_ref_remaining (V (node m))"
       "V_m (S (node (psc_update_lag h origin lag m))) \<le> th_inf (P (node m))"
    using that psc_update_lag_spike[OF that(1), of h origin lag] by simp
  have psw: "V_m (S (node (psc_update_lag h origin lag (with_threshold t m)))) = V_m (S (node (psc_update_lag h origin lag m)))"
      "t_ref_remaining (V (node (with_threshold t m))) = t_ref_remaining (V (node m))"
      "v_old (with_threshold t m) = v_old m" "events (with_threshold t m) = events m"
      "th_inf (P (node (with_threshold t m))) = t" for t
    by (simp_all add: with_threshold_def psc_update_lag_fields psc_voltage_step_th_inf)
  have ps': "events (psc_update_lag h origin lag (with_threshold t m)) = events m @
        [SetSpiketime (origin + int lag + 1) (Some ((1 - (t - v_old m) / (V_m (S (node (psc_update_lag h origin lag m))) - v_old m)) * h)),
         Send lag (Some ((1 - (t - v_old m) / (V_m (S (node (psc_update_lag h origin lag m))) - v_old m)) * h)),
         RecordData (origin + int lag) (V_m (S (node (psc_update_lag h origin lag m))))]"
    if "\<not> 0 < t_ref_remaining (V (node m))" "v_old m \<le> t"
       "t < V_m (S (node (psc_update_lag h origin lag m)))" for t
    using ps[of "with_threshold t m" t] that by (simp add: psw)
  let ?vn = "V_m (S (node (update_lag h origin lag l)))"
  let ?wn = "V_m (S (node (psc_update_lag h origin lag m)))"
  have b1: "0 \<le> (1 - (th_inf (P (node l)) - v_old l) / (?vn - v_old l)) * h"
      "(1 - (th_inf (P (node l)) - v_old l) / (?vn - v_old l)) * h \<le> h"
    if "v_old l \<le> th_inf (P (node l))" "th_inf (P (node l)) < ?vn"
    using offset_bounds[OF that assms] by simp_all
  have b2: "0 \<le> (1 - (th_inf (P (node m)) - v_old m) / (?wn - v_old m)) * h"
      "(1 - (th_inf (P (node m)) - v_old m) / (?wn - v_old m)) * h \<le> h"
    if "v_old m \<le> th_inf (P (node m))" "th_inf (P (node m)) < ?wn"
    using offset_bounds[OF that assms] by simp_all
  have a1: "(1 - (th' - v_old l) / (?vn - v_old l)) * h
      \<le> (1 - (th_inf (P (node l)) - v_old l) / (?vn - v_old l)) * h"
    if "v_old l \<le> th_inf (P (node l))" "th_inf (P (node l)) \<le> th'" "th' < ?vn"
    using offset_antitone[OF _ that(2) assms, of "v_old l" ?vn] that by simp
  have a2: "(1 - (th' - v_old m) / (?wn - v_old m)) * h
      \<le> (1 - (th_inf (P (node m)) - v_old m) / (?wn - v_old m)) * h"
    if "v_old m \<le> th_inf (P (node m))" "th_inf (P (node m)) \<le> th'" "th' < ?wn"
    using offset_antitone[OF _ that(2) assms, of "v_old m" ?wn] that by simp
  show ?thesis
    unfolding Let_def
    using pl[where l = l and t = "th_inf (P (node l))"] pl0 pl'[where t = th']
      ps[where m = m and t = "th_inf (P (node m))"] ps0 ps'[where t = th'] b1 b2 a1 a2
    by (auto simp add: le_less_trans)
qed



theorem C3_spike_offset_witness:
  "(0::real) \<le> 1
   \<and> \<not> 0 < t_ref_remaining (V (node (start (ex_plain 0 (- 2) 3998) (- 2))))
   \<and> v_old (start (ex_plain 0 (- 2) 3998) (- 2)) \<le> th_inf (P (node (start (ex_plain 0 (- 2) 3998) (- 2))))
   \<and> C_m (P (node (start (ex_plain 0 (- 2) 3998) (- 2)))) \<noteq> 0
   \<and> G (P (node (start (ex_plain 0 (- 2) 3998) (- 2)))) \<noteq> 0
   \<and> th_inf (P (node (start (ex_plain 0 (- 2) 3998) (- 2)))) \<le> 3/2
   \<and> 3/2 < V_m (S (node (update_lag 1 0 0 (start (ex_plain 0 (- 2) 3998) (- 2)))))
   \<and> events (update_lag 1 0 0 (start (ex_plain 0 (- 2) 3998) (- 2))) =
        [SetSpiketime 1 (Some (1/4)), Send 0 (Some (1/4)), RecordData 0 2]
   \<and> events (update_lag 1 0 0 (with_threshold (3/2) (start (ex_plain 0 (- 2) 3998) (- 2)))) =
        [SetSpiketime 1 (Some (1/8)), Send 0 (Some (1/8)), RecordData 0 2]
   \<and> \<not> 0 < t_ref_remaining (V (node (start (ex_psc 0 (- 2) (7/4)) (- 2))))
   \<and> v_old (start (ex_psc 0 (- 2) (7/4)) (- 2)) \<le> th_inf (P (node (start (ex_psc 0 (- 2) (7/4)) (- 2))))
   \<and> C_m (P (node (start (ex_psc 0 (- 2) (7/4)) (- 2)))) \<noteq> 0
   \<and> th_inf (P (node (start (ex_psc 0 (- 2) (7/4)) (- 2)))) \<le> 3/2
   \<and> 3/2 < V_m (S (node (psc_update_lag 1 0 0 (start (ex_psc 0 (- 2) (7/4)) (- 2)))))
   \<and> events (psc_update_lag 1 0 0 (start (ex_psc 0 (- 2) (7/4)) (- 2))) =
        [SetSpiketime 1 (Some (1/4)), Send 0 (Some (1/4)), RecordData 0 2]
   \<and> events (psc_update_lag 1 0 0 (with_threshold (3/2) (start (ex_psc 0 (- 2) (7/4)) (- 2)))) =
        [SetSpiketime 1 (Some (1/8)), Send 0 (Some (1/8)), RecordData 0 2]"
proof -
  have h: "(0::real) \<le> 1" by simp
  have vp: "V_m (S (node (update_lag 1 0 0 (start (ex_plain 0 (- 2) 3998) (- 2))))) = 2"
    by (simp add: update_lag_fields voltage_step_def start_def ex_plain_def Let_def)
  have vs: "V_m (S (node (psc_update_lag 1 0 0 (start (ex_psc 0 (- 2) (7/4)) (- 2))))) = 2"
    by (simp add: psc_update_lag_fields psc_voltage_step_def start_def ex_psc_def Let_def
        n_receptors_def add_synapse_def)
  have c: "t_ref_remaining (V (node (start (ex_plain 0 (- 2) 3998) (- 2)))) = 0"
      "v_old (start (ex_plain 0 (- 2) 3998) (- 2)) = - 2"
      "events (start (ex_plain 0 (- 2) 3998) (- 2)) = []"
      "th_inf (P (node (start (ex_plain 0 (- 2) 3998) (- 2)))) = 1"
      "C_m (P (node (start (ex_plain 0 (- 2) 3998) (- 2)))) = 1"
      "G (P (node (start (ex_plain 0 (- 2) 3998) (- 2)))) = 1"
      "t_ref_remaining (V (node (start (ex_psc 0 (- 2) (7/4)) (- 2)))) = 0"
      "v_old (start (ex_psc 0 (- 2) (7/4)) (- 2)) = - 2"
      "events (start (ex_psc 0 (- 2) (7/4)) (- 2)) = []"
      "th_inf (P (node (start (ex_psc 0 (- 2) (7/4)) (- 2)))) = 1"
      "C_m (P (node (start (ex_psc 0 (- 2) (7/4)) (- 2)))) = 1"
    by (simp_all add: start_def ex_plain_def ex_psc_def)
  show ?thesis
    using C3_spike_offset[OF h, where l = "start (ex_plain 0 (- 2) 3998) (- 2)"
        and m = "start (ex_psc 0 (- 2) (7/4)) (- 2)" and th' = "3/2" and origin = 0 and lag = 0]
    unfolding vp vs Let_def c
    by simp
qed

text \<open>C3, as the claim states it, fails on three steps from \<open>v_old = 0\<close> at resolution 1.
  When the new potential is exactly the threshold 1, neither variant emits a spike, so no
  offset 0 is emitted there. When the potential of \<open>glif_lif_psc\<close> reaches 1024 over the
  threshold 1023, the threshold is crossed after \<open>1023/1024\<close> of the step, and the offset is
  \<open>1/1024\<close> of the step, not close to the whole step. All values are doubles and every
  operation of the three steps is exact on them.\<close>

theorem C3_late_crossing_counterexample:
  "th_inf (P (ex_plain 0 0 1000)) = 1
   \<and> events (update_lag 1 0 0 (start (ex_plain 0 0 1000) 0)) = [RecordData 0 1]
   \<and> th_inf (P (ex_psc 0 0 (3/4))) = 1
   \<and> events (psc_update_lag 1 0 0 (start (ex_psc 0 0 (3/4)) 0)) = [RecordData 0 1]
   \<and> events (psc_update_lag 1 0 0 (with_threshold 1023 (start (ex_psc 0 0 (4095/4)) 0))) =
        [SetSpiketime 1 (Some (1/1024)), Send 0 (Some (1/1024)), RecordData 0 1024]
   \<and> (1023 - 0) / (1024 - 0) = (1023/1024 :: real)"
  by (simp add: update_lag_def voltage_step_def psc_update_lag_def psc_voltage_step_def Let_def
      get_value_def start_def ex_plain_def ex_psc_def with_threshold_def
      n_receptors_def add_synapse_def alpha_psc_def spike_offset_def fdiv_def)


section \<open>The synaptic filter during the refractory time\<close>

lemma fold_add_synapse_cong:
  assumes "P31 (V a) = P31 (V b)" "P32 (V a) = P32 (V b)" "y1 (S a) = y1 (S b)" "y2 (S a) = y2 (S b)"
  shows "fold (add_synapse a) is v = fold (add_synapse b) is v"
proof -
  have "add_synapse a = add_synapse b"
    using assms by (simp add: add_synapse_def fun_eq_iff)
  then show ?thesis by simp
qed

lemma psc_voltage_step_V_m_integrating:
  assumes "\<not> 0 < t_ref_remaining (V n)"
  shows "V_m (S (fst (psc_voltage_step h origin lag vo n))) =
    fold (add_synapse n) [0..<n_receptors (P n)]
      (if method_flag (V n) = 0 then vo + h * (I (S n) - G (P n) * (vo - E_l (P n))) / C_m (P n)
       else if method_flag (V n) = 1 then vo * P33 (V n) + (I (S n) + G (P n) * E_l (P n)) * P30 (V n)
       else V_m (S n))"
proof -
  have a: "fold (add_synapse (n\<lparr>S := (S n)\<lparr>V_m := x\<rparr>\<rparr>)) is v = fold (add_synapse n) is v" for x "is" v
    by (rule fold_add_synapse_cong) simp_all
  show ?thesis using assms by (simp add: psc_voltage_step_def Let_def a)
qed

text \<open>
  C8. A refractory step of \<open>glif_lif_psc::update\<close> advances the synaptic filter of every
  receptor and drains the spike buffer of the receptor at this lag, while the membrane
  potential is held or reset; when the refractory time ends with this step, the potential
  of the following step is the voltage dynamics from \<open>V_reset\<close> plus the synaptic
  contributions \<open>P31[i] * y1[i] + P32[i] * y2[i]\<close> of the states that the refractory step
  has left, the spikes delivered during it included.
\<close>

theorem C8_filter_runs_while_refractory:
  assumes "sized (node l)" and "i < n_receptors (P (node l))" and "t_ref_remaining (V (node l)) > 0"
  shows "y2 (S (node (psc_update_lag h origin lag l))) ! i =
           P21 (V (node l)) ! i * y1 (S (node l)) ! i + P22 (V (node l)) ! i * y2 (S (node l)) ! i
       \<and> y1 (S (node (psc_update_lag h origin lag l))) ! i =
           y1 (S (node l)) ! i * P11 (V (node l)) ! i
            + PSCInitialValues (V (node l)) ! i * (spikes (B (node l)) ! i) lag
       \<and> (spikes (B (node (psc_update_lag h origin lag l))) ! i) lag = 0
       \<and> V_m (S (node (psc_update_lag h origin lag l))) =
             (if t_ref_remaining (V (node l)) - h > 0 then v_old l else V_reset (P (node l)))
       \<and> (t_ref_remaining (V (node l)) - h \<le> 0 \<longrightarrow>
           V_m (S (node (psc_update_lag h origin lag' (psc_update_lag h origin lag l)))) =
             fold (add_synapse (node (psc_update_lag h origin lag l))) [0..<n_receptors (P (node l))]
               (if method_flag (V (node l)) = 0
                then V_reset (P (node l)) + h * (currents (B (node l)) lag
                       - G (P (node l)) * (V_reset (P (node l)) - E_l (P (node l)))) / C_m (P (node l))
                else if method_flag (V (node l)) = 1
                then V_reset (P (node l)) * P33 (V (node l))
                       + (currents (B (node l)) lag + G (P (node l)) * E_l (P (node l))) * P30 (V (node l))
                else V_reset (P (node l))))"
proof -
  let ?l = "psc_update_lag h origin lag l"
  have r: "t_ref_remaining (V (node ?l)) = t_ref_remaining (V (node l)) - h"
    using assms(3) by (simp add: psc_update_lag_fields psc_voltage_step_refractory)
  have v: "V_m (S (node ?l)) = (if t_ref_remaining (V (node l)) - h > 0 then v_old l else V_reset (P (node l)))"
    using assms(3) by (simp add: psc_update_lag_fields psc_voltage_step_refractory)
  have c: "I (S (node ?l)) = currents (B (node l)) lag"
    by (simp add: psc_update_lag_node Let_def)
  have k: "method_flag (V (node ?l)) = method_flag (V (node l))" "P33 (V (node ?l)) = P33 (V (node l))"
    "P30 (V (node ?l)) = P30 (V (node l))"
    by (simp_all add: psc_update_lag_fields psc_voltage_step_frame)
  have "V_m (S (node (psc_update_lag h origin lag' ?l))) =
             fold (add_synapse (node ?l)) [0..<n_receptors (P (node l))]
               (if method_flag (V (node l)) = 0
                then V_reset (P (node l)) + h * (currents (B (node l)) lag
                       - G (P (node l)) * (V_reset (P (node l)) - E_l (P (node l)))) / C_m (P (node l))
                else if method_flag (V (node l)) = 1
                then V_reset (P (node l)) * P33 (V (node l))
                       + (currents (B (node l)) lag + G (P (node l)) * E_l (P (node l))) * P30 (V (node l))
                else V_reset (P (node l)))"
    if "t_ref_remaining (V (node l)) - h \<le> 0"
  proof -
    have "\<not> 0 < t_ref_remaining (V (node ?l))" using that r by simp
    from psc_voltage_step_V_m_integrating[OF this, of h origin lag' "v_old ?l"] that
    show ?thesis
      by (simp add: psc_update_lag_fields(3)[of h origin lag' ?l] psc_update_lag_fields(2,4) v c k)
  qed
  then show ?thesis
    using psc_update_lag_filter[OF assms(1,2), of h origin lag] v by simp
qed

lemma ex_psc_simps:
  "P (ex_psc r v c) = \<lparr>th_inf = 1, G = 1, E_l = 0, C_m = 1, t_ref = 1/2, V_reset = 0,
           V_dynamics_method = ''linear_forward_euler'', tau_syn = [2], has_connections = True\<rparr>"
  "S (ex_psc r v c) = \<lparr>V_m = v, I = c, y1 = [1], y2 = [2]\<rparr>"
  "V (ex_psc r v c) = \<lparr>t_ref_remaining = r, t_ref_total = 1/2, method_flag = 0, P11 = [1/2], P21 = [1/4],
           P22 = [1/2], P31 = [1/8], P32 = [1/16], P30 = 1/2, P33 = 1/2, PSCInitialValues = [3]\<rparr>"
  "B (ex_psc r v c) = \<lparr>spikes = [(\<lambda>_. 0)(0 := 5)], currents = (\<lambda>_. 0)(0 := 7)\<rparr>"
  by (simp_all add: ex_psc_def)

text \<open>In the instance, the step after the refractory one reaches \<open>353/64\<close> with the spike of
  weight 5 delivered during the refractory step, and \<open>233/64\<close> without it.\<close>

theorem C8_filter_runs_while_refractory_witness:
  "sized (node (start (ex_psc (1/2) 2 0) 2))
   \<and> (0::nat) < n_receptors (P (node (start (ex_psc (1/2) 2 0) 2)))
   \<and> t_ref_remaining (V (node (start (ex_psc (1/2) 2 0) 2))) > 0
   \<and> y1 (S (node (psc_update_lag (1/2) 0 0 (start (ex_psc (1/2) 2 0) 2)))) ! 0 = 31/2
   \<and> y2 (S (node (psc_update_lag (1/2) 0 0 (start (ex_psc (1/2) 2 0) 2)))) ! 0 = 5/4
   \<and> V_m (S (node (psc_update_lag (1/2) 0 0 (start (ex_psc (1/2) 2 0) 2)))) = 0
   \<and> V_m (S (node (psc_update_lag (1/2) 0 1 (psc_update_lag (1/2) 0 0 (start (ex_psc (1/2) 2 0) 2))))) = 353/64
   \<and> V_m (S (fst (psc_update (1/2) 0 0 2
        ((ex_psc (1/2) 2 0)\<lparr>B := (B (ex_psc (1/2) 2 0))\<lparr>spikes := [\<lambda>_. 0]\<rparr>\<rparr>)))) = 233/64"
proof -
  have a: "sized (node (start (ex_psc (1/2) 2 0) 2))" by (simp add: start_def ex_psc_sized)
  have b: "0 < n_receptors (P (node (start (ex_psc (1/2) 2 0) 2)))"
    by (simp add: start_def ex_psc_def n_receptors_def)
  have c: "t_ref_remaining (V (node (start (ex_psc (1/2) 2 0) 2))) > 0"
    by (simp add: start_def ex_psc_def)
  have d: "V_m (S (fst (psc_update (1/2) 0 0 2
        ((ex_psc (1/2) 2 0)\<lparr>B := (B (ex_psc (1/2) 2 0))\<lparr>spikes := [\<lambda>_. 0]\<rparr>\<rparr>)))) = 233/64"
    by (simp add: psc_update_def numeral_2_eq_2 psc_update_lag_def psc_voltage_step_def Let_def
        get_value_def ex_psc_def n_receptors_def add_synapse_def alpha_psc_def)
  have e: "y1 (S (node (psc_update_lag (1/2) 0 0 (start (ex_psc (1/2) 2 0) 2)))) = [31/2]"
     "y2 (S (node (psc_update_lag (1/2) 0 0 (start (ex_psc (1/2) 2 0) 2)))) = [5/4]"
     "P31 (V (node (psc_update_lag (1/2) 0 0 (start (ex_psc (1/2) 2 0) 2)))) = [1/8]"
     "P32 (V (node (psc_update_lag (1/2) 0 0 (start (ex_psc (1/2) 2 0) 2)))) = [1/16]"
    by (simp_all add: psc_update_lag_def psc_voltage_step_def Let_def
        get_value_def ex_psc_def n_receptors_def alpha_psc_def start_def)
  show ?thesis
    using a b c d C8_filter_runs_while_refractory[OF a b c, of "1/2" 0 0 1]
    by (simp add: add_synapse_def e[unfolded start_def] start_def ex_psc_simps n_receptors_def)
qed


section \<open>The method flag\<close>

text \<open>
  C10. \<open>glif_lif_psc::calibrate\<close> sets \<open>method_\<close> to 1 when \<open>V_dynamics_method\<close> is the
  string \<open>linear_exact\<close> and to 0 for every other string; \<open>calibrate\<close> has no failing
  branch.
\<close>

theorem C10_method_resolution:
  "method_flag (V (psc_calibrate k h n)) = (if V_dynamics_method (P n) = ''linear_exact'' then 1 else 0)"
  by (simp add: psc_calibrate_frame)

theorem C10_method_resolution_witness:
  "method_flag (V (psc_calibrate ex_host 1 (ex_psc 0 0 0))) = 0
   \<and> method_flag (V (psc_calibrate ex_host 1 ((ex_psc 0 0 0)\<lparr>P := (P (ex_psc 0 0 0))\<lparr>V_dynamics_method := ''linear_exact''\<rparr>\<rparr>))) = 1
   \<and> method_flag (V (psc_calibrate ex_host 1 ((ex_psc 0 0 0)\<lparr>P := (P (ex_psc 0 0 0))\<lparr>V_dynamics_method := ''linear_exakt''\<rparr>\<rparr>))) = 0"
  using C10_method_resolution[of ex_host 1 "ex_psc 0 0 0"]
    C10_method_resolution[of ex_host 1 "(ex_psc 0 0 0)\<lparr>P := (P (ex_psc 0 0 0))\<lparr>V_dynamics_method := ''linear_exact''\<rparr>\<rparr>"]
    C10_method_resolution[of ex_host 1 "(ex_psc 0 0 0)\<lparr>P := (P (ex_psc 0 0 0))\<lparr>V_dynamics_method := ''linear_exakt''\<rparr>\<rparr>"]
  by (simp add: ex_psc_def)

section \<open>The zero denominator of the spike offset\<close>

text \<open>
  C5, as the code has it. The division of the spike offset has no guard in either variant.
  On a step that is not refractory and whose new potential exceeds the threshold, the
  spike is handed to the host with the offset \<open>spike_offset th_inf v_old V_m h\<close>, which is
  the non-finite value exactly when the new potential equals \<open>v_old\<close>; when the step
  started with \<open>v_old \<le> th_inf\<close> the new potential differs from \<open>v_old\<close>, so the denominator
  is zero only on steps that start above the threshold.
\<close>

theorem C5_offset_division:
  fixes l :: "glif_lif loop" and m :: "glif_lif_psc loop"
  shows "(\<not> 0 < t_ref_remaining (V (node l))
           \<and> th_inf (P (node l)) < V_m (S (node (update_lag h origin lag l))) \<longrightarrow>
          (let vn = V_m (S (node (update_lag h origin lag l)));
               offs = spike_offset (th_inf (P (node l))) (v_old l) vn h
           in events (update_lag h origin lag l) = events l @
                [SetSpiketime (origin + int lag + 1) offs, Send lag offs, RecordData (origin + int lag) vn]
              \<and> (offs = None \<longleftrightarrow> vn = v_old l)
              \<and> (v_old l \<le> th_inf (P (node l)) \<longrightarrow> vn \<noteq> v_old l)))
       \<and> (\<not> 0 < t_ref_remaining (V (node m))
           \<and> th_inf (P (node m)) < V_m (S (node (psc_update_lag h origin lag m))) \<longrightarrow>
          (let vn = V_m (S (node (psc_update_lag h origin lag m)));
               offs = spike_offset (th_inf (P (node m))) (v_old m) vn h
           in events (psc_update_lag h origin lag m) = events m @
                [SetSpiketime (origin + int lag + 1) offs, Send lag offs, RecordData (origin + int lag) vn]
              \<and> (offs = None \<longleftrightarrow> vn = v_old m)
              \<and> (v_old m \<le> th_inf (P (node m)) \<longrightarrow> vn \<noteq> v_old m)))"
  using update_lag_spike[of l h origin lag] psc_update_lag_spike[of m h origin lag]
  by (auto simp add: Let_def spike_offset_None_iff)

theorem C5_offset_division_witness:
  "\<not> 0 < t_ref_remaining (V (node (start (ex_plain 0 2 2) 2)))
   \<and> th_inf (P (node (start (ex_plain 0 2 2) 2))) < V_m (S (node (update_lag 1 0 0 (start (ex_plain 0 2 2) 2))))
   \<and> V_m (S (node (update_lag 1 0 0 (start (ex_plain 0 2 2) 2)))) = v_old (start (ex_plain 0 2 2) 2)
   \<and> events (update_lag 1 0 0 (start (ex_plain 0 2 2) 2)) =
        [SetSpiketime 1 None, Send 0 None, RecordData 0 2]
   \<and> \<not> 0 < t_ref_remaining (V (node (start (ex_psc 0 2 (7/4)) 2)))
   \<and> th_inf (P (node (start (ex_psc 0 2 (7/4)) 2))) < V_m (S (node (psc_update_lag 1 0 0 (start (ex_psc 0 2 (7/4)) 2))))
   \<and> V_m (S (node (psc_update_lag 1 0 0 (start (ex_psc 0 2 (7/4)) 2)))) = v_old (start (ex_psc 0 2 (7/4)) 2)
   \<and> events (psc_update_lag 1 0 0 (start (ex_psc 0 2 (7/4)) 2)) =
        [SetSpiketime 1 None, Send 0 None, RecordData 0 2]"
proof -
  have vp: "V_m (S (node (update_lag 1 0 0 (start (ex_plain 0 2 2) 2)))) = 2"
    by (simp add: update_lag_fields voltage_step_def start_def ex_plain_def Let_def)
  have vs: "V_m (S (node (psc_update_lag 1 0 0 (start (ex_psc 0 2 (7/4)) 2)))) = 2"
    by (simp add: psc_update_lag_fields psc_voltage_step_def start_def ex_psc_def Let_def
        n_receptors_def add_synapse_def)
  show ?thesis
    using C5_offset_division[of "start (ex_plain 0 2 2) 2" 1 0 0 "start (ex_psc 0 2 (7/4)) 2"]
    unfolding vp vs Let_def
    by (simp add: start_def ex_plain_def ex_psc_def spike_offset_None)
qed

text \<open>C5, as the claim states it, fails on a node of \<open>glif_lif\<close> with the default
  parameters except \<open>E_L = 0.03\<close>, resting at
  \<open>V_m = 0.03\<close> above the default threshold \<open>0.0265\<close>: the first step after \<open>calibrate\<close>
  leaves the potential where it is, emits a spike, and divides by zero for its offset.\<close>

theorem C5_zero_denominator_counterexample:
  "snd (update (1/10) 0 0 1
     (calibrate (fresh\<lparr>P := Parameters_set (P fresh) (empty_dict\<lparr>d_E_L := Some (3/100)\<rparr>),
                       S := State_set (S fresh) (empty_dict\<lparr>d_V_m := Some (3/100)\<rparr>)\<rparr>)))
    = [SetSpiketime 1 None, Send 0 None, RecordData 0 (3/100)]"
  by (simp add: update_def update_lag_def voltage_step_def Let_def get_value_def start_def fresh_def
      calibrate_def Parameters_set_def State_set_def Parameters_default_def State_default_def
      empty_dict_def updateValue_def spike_offset_def fdiv_def)


section \<open>Setting parameters\<close>

lemma updateValue_simps:
  "updateValue None x = (False, x)" "updateValue (Some y) x = (True, y)"
  by (simp_all add: updateValue_def)

lemma check_tau_syn_error:
  "check_tau_syn ts = Inl e \<Longrightarrow>
     e = BadProperty ''All synaptic time constants must be strictly positive.''"
  by (induction ts) (auto split: if_splits)

lemma psc_Parameters_set_never_rejects_length:
  "psc_Parameters_set p d \<noteq>
     Inl (BadProperty ''The neuron has connections, therefore the number of ports cannot be reduced.'')"
  by (cases "d_tau_syn d")
     (auto simp add: psc_Parameters_set_def Let_def updateValue_simps n_receptors_def
        split: sum.splits dest: check_tau_syn_error)

text \<open>
  C4, evaluated on the code. A node gets two receptors, a connection to receptor 2 sets
  \<open>has_connections\<close>, and a dictionary with a single time constant is then accepted by
  \<open>Parameters_::set\<close>: the receptor count drops from 2 to 1 under a connection. The count
  \<open>old_n_receptors\<close> is read after \<open>tau_syn\<close> has been overwritten, so the comparison of
  line 108 never differs (lemma \<open>psc_Parameters_set_never_rejects_length\<close>).
\<close>

theorem C4_length_change_accepted:
  "psc_Parameters_set (psc_Parameters_default\<lparr>tau_syn := [2, 3]\<rparr>) empty_dict
     = Inr (psc_Parameters_default\<lparr>tau_syn := [2, 3]\<rparr>)
   \<and> handles_test_event 2 (psc_fresh\<lparr>P := psc_Parameters_default\<lparr>tau_syn := [2, 3]\<rparr>\<rparr>)
     = Inr (2, psc_fresh\<lparr>P := psc_Parameters_default\<lparr>tau_syn := [2, 3], has_connections := True\<rparr>\<rparr>)
   \<and> psc_Parameters_set (psc_Parameters_default\<lparr>tau_syn := [2, 3], has_connections := True\<rparr>)
        (empty_dict\<lparr>d_tau_syn := Some [1]\<rparr>)
     = Inr (psc_Parameters_default\<lparr>tau_syn := [1], has_connections := True\<rparr>)"
  by (simp add: psc_Parameters_set_def Let_def updateValue_simps n_receptors_def empty_dict_def
      psc_Parameters_default_def handles_test_event_def psc_fresh_def)

text \<open>C7, as the claim states it, fails: both variants take the string \<open>bogus\<close> as
  \<open>V_dynamics_method\<close>.\<close>

theorem C7_unknown_method_counterexample:
  "Parameters_set Parameters_default (empty_dict\<lparr>d_V_dynamics_method := Some ''bogus''\<rparr>)
     = Parameters_default\<lparr>V_dynamics_method := ''bogus''\<rparr>
   \<and> psc_Parameters_set psc_Parameters_default (empty_dict\<lparr>d_V_dynamics_method := Some ''bogus''\<rparr>)
     = Inr (psc_Parameters_default\<lparr>V_dynamics_method := ''bogus''\<rparr>)"
  by (simp add: Parameters_set_def psc_Parameters_set_def Let_def updateValue_simps empty_dict_def
      psc_Parameters_default_def Parameters_default_def)

lemma psc_update_P: "P (fst (psc_update h origin from to n)) = P n"
proof -
  have "P (node (fold (psc_update_lag h origin) lags l)) = P (node l)" for lags l
    by (induction lags arbitrary: l) (simp_all add: psc_update_lag_fields)
  then show ?thesis by (simp add: psc_update_def Let_def)
qed

lemma psc_update_method_flag: "method_flag (V (fst (psc_update h origin from to n))) = method_flag (V n)"
proof -
  have "method_flag (V (node (fold (psc_update_lag h origin) lags l))) = method_flag (V (node l))"
    for lags l
    by (induction lags arbitrary: l) (simp_all add: psc_update_lag_fields psc_voltage_step_frame)
  then show ?thesis by (simp add: psc_update_def Let_def)
qed

lemma psc_run_method_flag_aux:
  assumes "P n = p"
    and "method_flag (V n) = (if V_dynamics_method p = ''linear_exact'' then 1 else 0)"
  shows "P (psc_run k h cs n) = p
       \<and> method_flag (V (psc_run k h cs n)) = (if V_dynamics_method p = ''linear_exact'' then 1 else 0)"
  using assms
proof (induction cs arbitrary: n)
  case Nil
  then show ?case by simp
next
  case (Cons c cs)
  show ?case
  proof (cases c)
    case Calibrate
    have "P (psc_calibrate k h n) = p"
      "method_flag (V (psc_calibrate k h n)) = (if V_dynamics_method p = ''linear_exact'' then 1 else 0)"
      using Cons.prems(1) by (simp_all add: psc_calibrate_frame)
    from Cons.IH[OF this] show ?thesis using Calibrate by simp
  next
    case (Update origin a b)
    have "P (fst (psc_update h origin a b n)) = p"
      "method_flag (V (fst (psc_update h origin a b n))) =
         (if V_dynamics_method p = ''linear_exact'' then 1 else 0)"
      using Cons.prems by (simp_all add: psc_update_P psc_update_method_flag)
    from Cons.IH[OF this] show ?thesis using Update by simp
  qed
qed

lemma psc_run_method_flag:
  "P (psc_run k h (Calibrate # cs) n) = P n"
  "method_flag (V (psc_run k h (Calibrate # cs) n)) =
     (if V_dynamics_method (P n) = ''linear_exact'' then 1 else 0)"
  using psc_run_method_flag_aux[of "psc_calibrate k h n" "P n" k h cs]
  by (simp_all add: psc_calibrate_frame)

text \<open>
  C7, as the code has it. \<open>Parameters_::set\<close> of either variant stores any string given
  for \<open>V_dynamics_method\<close>: in \<open>glif_lif\<close> the new parameters hold it, in \<open>glif_lif_psc\<close> the
  call fails or succeeds as it would without the entry and on success holds it. In
  \<open>glif_lif_psc\<close> every string other than \<open>linear_exact\<close> then selects forward Euler: in
  every run that starts with \<open>calibrate\<close> the method flag is 0, and a step that is not
  refractory advances the potential by \<open>v_old + h * (I - G * (v_old - E_l)) / C_m\<close> plus the
  synaptic contributions.
\<close>

theorem C7_method_not_validated:
  fixes n :: glif_lif_psc
  shows "V_dynamics_method (Parameters_set p (d\<lparr>d_V_dynamics_method := Some s\<rparr>)) = s
   \<and> psc_Parameters_set q (d\<lparr>d_V_dynamics_method := Some s\<rparr>)
       = map_sum id (\<lambda>q'. q'\<lparr>V_dynamics_method := s\<rparr>) (psc_Parameters_set q d)
   \<and> (let r = psc_run k h (Calibrate # cs) n in
        V_dynamics_method (P n) \<noteq> ''linear_exact'' \<and> \<not> 0 < t_ref_remaining (V r) \<longrightarrow>
          method_flag (V r) = 0
          \<and> V_m (S (fst (psc_voltage_step h origin lag vo r))) =
              fold (add_synapse r) [0..<n_receptors (P n)]
                (vo + h * (I (S r) - G (P n) * (vo - E_l (P n))) / C_m (P n)))"
proof -
  have a: "V_dynamics_method (Parameters_set p (d\<lparr>d_V_dynamics_method := Some s\<rparr>)) = s"
    by (simp add: Parameters_set_def updateValue_simps)
  have b: "psc_Parameters_set q (d\<lparr>d_V_dynamics_method := Some s\<rparr>)
       = map_sum id (\<lambda>q'. q'\<lparr>V_dynamics_method := s\<rparr>) (psc_Parameters_set q d)"
    by (cases "d_tau_syn d")
       (auto simp add: psc_Parameters_set_def Let_def updateValue_simps n_receptors_def
          split: sum.splits)
  let ?r = "psc_run k h (Calibrate # cs) n"
  have c: "method_flag (V ?r) = 0
          \<and> V_m (S (fst (psc_voltage_step h origin lag vo ?r))) =
              fold (add_synapse ?r) [0..<n_receptors (P n)]
                (vo + h * (I (S ?r) - G (P n) * (vo - E_l (P n))) / C_m (P n))"
    if "V_dynamics_method (P n) \<noteq> ''linear_exact''" "\<not> 0 < t_ref_remaining (V ?r)"
  proof -
    have mf: "method_flag (V ?r) = 0"
      unfolding psc_run_method_flag(2) using that(1) by simp
    have pr: "P ?r = P n" by (rule psc_run_method_flag(1))
    show ?thesis
      using psc_voltage_step_V_m_integrating[OF that(2), of h origin lag vo]
      unfolding mf pr by simp
  qed
  show ?thesis unfolding Let_def using a b c by blast
qed

theorem C7_method_not_validated_witness:
  "V_dynamics_method (Parameters_set Parameters_default (empty_dict\<lparr>d_V_dynamics_method := Some ''bogus''\<rparr>)) = ''bogus''
   \<and> psc_Parameters_set psc_Parameters_default (empty_dict\<lparr>d_V_dynamics_method := Some ''bogus''\<rparr>)
       = Inr (psc_Parameters_default\<lparr>V_dynamics_method := ''bogus''\<rparr>)
   \<and> V_dynamics_method (P ((ex_psc 0 0 (1/2))\<lparr>P := (P (ex_psc 0 0 (1/2)))\<lparr>V_dynamics_method := ''bogus''\<rparr>\<rparr>))
        \<noteq> ''linear_exact''
   \<and> \<not> 0 < t_ref_remaining (V (psc_run ex_host 1 [Calibrate]
        ((ex_psc 0 0 (1/2))\<lparr>P := (P (ex_psc 0 0 (1/2)))\<lparr>V_dynamics_method := ''bogus''\<rparr>\<rparr>)))
   \<and> method_flag (V (psc_run ex_host 1 [Calibrate]
        ((ex_psc 0 0 (1/2))\<lparr>P := (P (ex_psc 0 0 (1/2)))\<lparr>V_dynamics_method := ''bogus''\<rparr>\<rparr>))) = 0
   \<and> V_m (S (fst (psc_voltage_step 1 0 0 0 (psc_run ex_host 1 [Calibrate]
        ((ex_psc 0 0 (1/2))\<lparr>P := (P (ex_psc 0 0 (1/2)))\<lparr>V_dynamics_method := ''bogus''\<rparr>\<rparr>))))) = 1/2"
proof -
  define nb where "nb = (ex_psc 0 0 (1/2))\<lparr>P := (P (ex_psc 0 0 (1/2)))\<lparr>V_dynamics_method := ''bogus''\<rparr>\<rparr>"
  have e: "psc_Parameters_set psc_Parameters_default empty_dict = Inr psc_Parameters_default"
    by (simp add: psc_Parameters_set_def Let_def updateValue_simps empty_dict_def)
  have p: "V_dynamics_method (P nb) = ''bogus''" "n_receptors (P nb) = 1"
    "G (P nb) = 1" "E_l (P nb) = 0" "C_m (P nb) = 1"
    by (simp_all add: nb_def ex_psc_def n_receptors_def)
  have r: "t_ref_remaining (V (psc_calibrate ex_host 1 nb)) = 0"
    "I (S (psc_calibrate ex_host 1 nb)) = 1/2"
    "y1 (S (psc_calibrate ex_host 1 nb)) = [1]"
    "y2 (S (psc_calibrate ex_host 1 nb)) = [2]"
    "P31 (V (psc_calibrate ex_host 1 nb)) = [0]"
    "P32 (V (psc_calibrate ex_host 1 nb)) = [0]"
    by (simp_all add: nb_def psc_calibrate_def calibrate_receptor_def resize_def Let_def ex_psc_def
        n_receptors_def ex_host_def)
  have "V_dynamics_method (Parameters_set Parameters_default (empty_dict\<lparr>d_V_dynamics_method := Some ''bogus''\<rparr>)) = ''bogus''
   \<and> psc_Parameters_set psc_Parameters_default (empty_dict\<lparr>d_V_dynamics_method := Some ''bogus''\<rparr>)
       = Inr (psc_Parameters_default\<lparr>V_dynamics_method := ''bogus''\<rparr>)
   \<and> V_dynamics_method (P nb) \<noteq> ''linear_exact''
   \<and> \<not> 0 < t_ref_remaining (V (psc_run ex_host 1 [Calibrate] nb))
   \<and> method_flag (V (psc_run ex_host 1 [Calibrate] nb)) = 0
   \<and> V_m (S (fst (psc_voltage_step 1 0 0 0 (psc_run ex_host 1 [Calibrate] nb)))) = 1/2"
    using C7_method_not_validated[where p = Parameters_default and d = empty_dict
        and s = "''bogus''" and q = psc_Parameters_default and k = ex_host and h = 1
        and cs = "[]" and n = nb and origin = 0 and lag = 0 and vo = 0]
    unfolding Let_def
    by (simp add: r e p add_synapse_def)
  then show ?thesis unfolding nb_def .
qed


section \<open>The refractory counter in a run\<close>
















section \<open>A current drained before a refractory step\<close>

lemma voltage_step_set_current:
  "voltage_step h origin lag vo (set_current k c n) =
     (set_current k c (fst (voltage_step h origin lag vo n)), snd (voltage_step h origin lag vo n))"
  by (simp add: voltage_step_def set_current_def Let_def)

lemma voltage_step_set_I:
  assumes "0 < t_ref_remaining (V n)"
  shows "voltage_step h origin lag vo (n\<lparr>S := (S n)\<lparr>I := c\<rparr>\<rparr>) =
     ((fst (voltage_step h origin lag vo n))\<lparr>S := (S (fst (voltage_step h origin lag vo n)))\<lparr>I := c\<rparr>\<rparr>,
      snd (voltage_step h origin lag vo n))"
  using assms by (simp add: voltage_step_def Let_def)

lemma update_lag_set_current_other:
  assumes "j \<noteq> k"
  shows "update_lag h origin j (l\<lparr>node := set_current k c (node l)\<rparr>) =
         (update_lag h origin j l)\<lparr>node := set_current k c (node (update_lag h origin j l))\<rparr>"
proof -
  have "currents (B (set_current k c m)) j = currents (B m) j"
    "(set_current k c m)\<lparr>S := s, B := (B (set_current k c m))\<lparr>currents := (currents (B (set_current k c m)))(j := 0)\<rparr>\<rparr>
      = set_current k c (m\<lparr>S := s, B := (B m)\<lparr>currents := (currents (B m))(j := 0)\<rparr>\<rparr>)"
    "V_m (S (set_current k c m)) = V_m (S m)" "S (set_current k c m) = S m" for m :: glif_lif and s
    using assms by (simp_all add: set_current_def fun_upd_twist)
  then show ?thesis
    by (simp add: update_lag_def voltage_step_set_current Let_def split_beta get_value_def)
qed

lemma update_lag_set_current_same:
  "update_lag h origin k (l\<lparr>node := set_current k c (node l)\<rparr>) =
     (update_lag h origin k l)\<lparr>node := (node (update_lag h origin k l))
        \<lparr>S := (S (node (update_lag h origin k l)))\<lparr>I := c\<rparr>\<rparr>\<rparr>"
proof -
  have "currents (B (set_current k c m)) k = c"
    "(set_current k c m)\<lparr>S := s, B := (B (set_current k c m))\<lparr>currents := (currents (B (set_current k c m)))(k := 0)\<rparr>\<rparr>
      = m\<lparr>S := s, B := (B m)\<lparr>currents := (currents (B m))(k := 0)\<rparr>\<rparr>"
    "V_m (S (set_current k c m)) = V_m (S m)" "S (set_current k c m) = S m" for m :: glif_lif and s
    by (simp_all add: set_current_def)
  then show ?thesis
    by (simp add: update_lag_def voltage_step_set_current Let_def split_beta get_value_def)
qed

lemma update_lag_set_I:
  assumes "0 < t_ref_remaining (V (node l))"
  shows "update_lag h origin j (l\<lparr>node := (node l)\<lparr>S := (S (node l))\<lparr>I := c\<rparr>\<rparr>\<rparr>) = update_lag h origin j l"
  using assms
  by (simp add: update_lag_def voltage_step_set_I Let_def split_beta get_value_def)

lemma fold_update_lag_set_current:
  assumes "k \<notin> set js"
  shows "fold (update_lag h origin) js (l\<lparr>node := set_current k c (node l)\<rparr>) =
         (fold (update_lag h origin) js l)\<lparr>node := set_current k c (node (fold (update_lag h origin) js l))\<rparr>"
  using assms
proof (induction js arbitrary: l)
  case Nil
  show ?case by simp
next
  case (Cons j js)
  then have "j \<noteq> k" "k \<notin> set js" by auto
  then show ?case
    by (simp add: update_lag_set_current_other Cons.IH)
qed

lemma update_set_I:
  assumes "0 < t_ref_remaining (V n)" and "from < to"
  shows "update h origin from to (n\<lparr>S := (S n)\<lparr>I := c\<rparr>\<rparr>) = update h origin from to n"
proof -
  let ?l0 = "\<lparr>node = n, v_old = V_m (S n), events = []\<rparr>"
  have split: "[from..<to] = from # [Suc from..<to]"
    using assms(2) by (rule upt_conv_Cons)
  have init: "\<lparr>node = n\<lparr>S := (S n)\<lparr>I := c\<rparr>\<rparr>, v_old = V_m (S (n\<lparr>S := (S n)\<lparr>I := c\<rparr>\<rparr>)), events = []\<rparr>
      = ?l0\<lparr>node := (node ?l0)\<lparr>S := (S (node ?l0))\<lparr>I := c\<rparr>\<rparr>\<rparr>"
    by simp
  have "update_lag h origin from (?l0\<lparr>node := (node ?l0)\<lparr>S := (S (node ?l0))\<lparr>I := c\<rparr>\<rparr>\<rparr>)
      = update_lag h origin from ?l0"
    by (rule update_lag_set_I) (simp add: assms(1))
  then show ?thesis
    unfolding update_def init split by simp
qed

text \<open>
  C9. Let the step of \<open>glif_lif::update\<close> after lag \<open>k\<close> be refractory. Then the value that
  the current buffer holds for lag \<open>k\<close> has no effect on what the host sees: the events of
  the slice (every logged potential and every spike with its offset) are the same for any
  value \<open>c\<close> in that slot; when the following step belongs to the same slice the nodes
  at the end of the slice are the same as well, and when lag \<open>k\<close> is the last of the slice,
  any following non-empty slice gives the same node and the same events.
\<close>

theorem C9_current_before_refractory_step:
  assumes "from \<le> k" and "k < to"
    and "0 < t_ref_remaining (V (fst (update h origin from (Suc k) n)))"
  shows "snd (update h origin from to (set_current k c n)) = snd (update h origin from to n)
       \<and> (Suc k < to \<longrightarrow>
            fst (update h origin from to (set_current k c n)) = fst (update h origin from to n))
       \<and> (Suc k = to \<and> from' < to' \<longrightarrow>
            update h origin' from' to' (fst (update h origin from to (set_current k c n)))
              = update h origin' from' to' (fst (update h origin from to n)))"
proof -
  let ?f = "update_lag h origin"
  let ?l0 = "\<lparr>node = n, v_old = V_m (S n), events = []\<rparr>"
  let ?l0' = "\<lparr>node = set_current k c n, v_old = V_m (S (set_current k c n)), events = []\<rparr>"
  let ?a = "fold ?f [from..<k] ?l0"
  let ?b = "?f k ?a"
  have init: "?l0' = ?l0\<lparr>node := set_current k c (node ?l0)\<rparr>"
    by (simp add: set_current_def)
  have a': "fold ?f [from..<k] ?l0' = ?a\<lparr>node := set_current k c (node ?a)\<rparr>"
    unfolding init by (rule fold_update_lag_set_current) simp
  have b': "?f k (fold ?f [from..<k] ?l0') = ?b\<lparr>node := (node ?b)\<lparr>S := (S (node ?b))\<lparr>I := c\<rparr>\<rparr>\<rparr>"
    unfolding a' by (rule update_lag_set_current_same)
  have upk: "update h origin from (Suc k) n = (node ?b, events ?b)"
    using assms(1) by (simp add: update_def Let_def)
  with assms(3) have refr: "0 < t_ref_remaining (V (node ?b))" by simp
  show ?thesis
  proof (cases "Suc k < to")
    case True
    have split: "[from..<to] = [from..<k] @ k # Suc k # [Suc (Suc k)..<to]"
      using assms(1) True by (metis Suc_lessD le_eq_less_or_eq less_le_trans upt_add_eq_append
          le_Suc_ex upt_conv_Cons)
    have c': "?f (Suc k) (?f k (fold ?f [from..<k] ?l0')) = ?f (Suc k) ?b"
      unfolding b' by (rule update_lag_set_I[OF refr])
    have "fold ?f [from..<to] ?l0' = fold ?f [from..<to] ?l0"
      unfolding split by (simp add: c')
    then have "update h origin from to (set_current k c n) = update h origin from to n"
      by (simp add: update_def Let_def)
    with True show ?thesis by simp
  next
    case False
    with assms(2) have to: "to = Suc k" by simp
    have n': "update h origin from to (set_current k c n) =
        ((node ?b)\<lparr>S := (S (node ?b))\<lparr>I := c\<rparr>\<rparr>, events ?b)"
      unfolding to using assms(1) b' by (simp add: update_def Let_def)
    have "update h origin' from' to' ((node ?b)\<lparr>S := (S (node ?b))\<lparr>I := c\<rparr>\<rparr>)
        = update h origin' from' to' (node ?b)" if "from' < to'"
      by (rule update_set_I[OF refr that])
    then show ?thesis
      using n' upk to by simp
  qed
qed

theorem C9_current_before_refractory_step_witness:
  "(0::nat) \<le> 1 \<and> (1::nat) < 3
   \<and> 0 < t_ref_remaining (V (fst (update (1/10) 0 0 (Suc 1) (ex_plain 0 2 0))))
   \<and> update (1/10) 0 0 3 (set_current 1 100 (ex_plain 0 2 0)) = update (1/10) 0 0 3 (ex_plain 0 2 0)
   \<and> (0::nat) \<le> 0 \<and> (0::nat) < 1
   \<and> 0 < t_ref_remaining (V (fst (update (1/10) 0 0 (Suc 0) (ex_plain 0 2 0))))
   \<and> snd (update (1/10) 0 0 1 (set_current 0 100 (ex_plain 0 2 0))) = snd (update (1/10) 0 0 1 (ex_plain 0 2 0))
   \<and> update (1/10) 1 0 2 (fst (update (1/10) 0 0 1 (set_current 0 100 (ex_plain 0 2 0))))
        = update (1/10) 1 0 2 (fst (update (1/10) 0 0 1 (ex_plain 0 2 0)))"
proof -
  have r: "0 < t_ref_remaining (V (fst (update (1/10) 0 0 (Suc 1) (ex_plain 0 2 0))))"
    by (simp add: update_def upt_conv_Cons update_lag_def voltage_step_def Let_def get_value_def
        ex_plain_def)
  have r0: "0 < t_ref_remaining (V (fst (update (1/10) 0 0 (Suc 0) (ex_plain 0 2 0))))"
    by (simp add: update_def upt_conv_Cons update_lag_def voltage_step_def Let_def get_value_def
        ex_plain_def)
  have a: "(1::nat) < 3" "(0::nat) \<le> 1" "(0::nat) < 1" "(0::nat) \<le> 0" "(0::nat) < 2" by simp_all
  from C9_current_before_refractory_step[OF a(2) a(1) r, of 100]
    C9_current_before_refractory_step[OF a(4) a(3) r0, of 100 0 2 1]
  have "snd (update (1/10) 0 0 3 (set_current 1 100 (ex_plain 0 2 0))) = snd (update (1/10) 0 0 3 (ex_plain 0 2 0))"
    "fst (update (1/10) 0 0 3 (set_current 1 100 (ex_plain 0 2 0))) = fst (update (1/10) 0 0 3 (ex_plain 0 2 0))"
    "snd (update (1/10) 0 0 1 (set_current 0 100 (ex_plain 0 2 0))) = snd (update (1/10) 0 0 1 (ex_plain 0 2 0))"
    "update (1/10) 1 0 2 (fst (update (1/10) 0 0 1 (set_current 0 100 (ex_plain 0 2 0))))
        = update (1/10) 1 0 2 (fst (update (1/10) 0 0 1 (ex_plain 0 2 0)))"
    by simp_all
  then show ?thesis using r r0 by (simp add: prod_eq_iff)
qed

end
